theory Spec2Isabelle
  imports Main "HOL-Library.Multiset"
begin

section \<open>Python values, exceptions and effects\<close>

text \<open>
  The orchestration core of the repository is Python code whose behaviour is a sequence of
  calls to external collaborators (the LangSmith client, the structured logger, the
  company extractor, document searcher and answer generator of the parent chatbot class,
  the model backend of an agent) glued together by \<^verbatim>\<open>try/except\<close> blocks.

  An instance of Python's \<^verbatim>\<open>Exception\<close> is a value \<open>Exn type message\<close>:
  \<open>exn_type\<close> is \<^verbatim>\<open>type(e).__name__\<close> and \<open>exn_str\<close> is \<^verbatim>\<open>str(e)\<close>.
  Signals that derive from \<^verbatim>\<open>BaseException\<close> only (cancellation, interrupts) are
  not values of this type; no \<^verbatim>\<open>except Exception\<close> clause sees them.
\<close>

datatype exn = Exn (exn_type: string) (exn_str: string)

datatype pyval =
    PNone
  | PBool bool
  | PInt int
  | PStr string
  | PList "pyval list"
  | PDict "(string \<times> pyval) list"

type_synonym pydict = "(string \<times> pyval) list"

text \<open>Python truthiness, as used by \<^verbatim>\<open>bool(x)\<close>, \<^verbatim>\<open>x or y\<close> and \<^verbatim>\<open>if x\<close>.\<close>

fun truthy :: "pyval \<Rightarrow> bool" where
  "truthy PNone = False"
| "truthy (PBool b) = b"
| "truthy (PInt i) = (i \<noteq> 0)"
| "truthy (PStr s) = (s \<noteq> [])"
| "truthy (PList xs) = (xs \<noteq> [])"
| "truthy (PDict kvs) = (kvs \<noteq> [])"

text \<open>An optional string argument (\<^verbatim>\<open>x: str = None\<close>) as a Python value.\<close>

definition opt_str :: "string option \<Rightarrow> pyval" where
  "opt_str x = (case x of None \<Rightarrow> PNone | Some s \<Rightarrow> PStr s)"

text \<open>\<^verbatim>\<open>str.lower()\<close> on the ASCII letters that class names are made of.\<close>

definition lower_char :: "char \<Rightarrow> char" where
  "lower_char c =
     (if (65::nat) \<le> of_char c \<and> of_char c \<le> (90::nat)
      then char_of (of_char c + (32::nat)) else c)"

definition lower :: "string \<Rightarrow> string" where
  "lower s = map lower_char s"

subsection \<open>Calls that leave the process\<close>

text \<open>
  Every call to an external collaborator is recorded, in order, in the \<open>events\<close> of the
  world: what the LangSmith client was asked to create and to end, what was logged, and
  which collaborator was invoked with which arguments.
\<close>

datatype create_args =
  Create_args (ca_name: string) (ca_inputs: pyval) (ca_project_name: string) (ca_kwargs: pydict)

datatype end_args =
  End_args (er_run_id: string) (er_outputs: "pyval option") (er_error: "exn option")

text \<open>
  What \<^verbatim>\<open>_call_llm\<close> is handed as a message: a \<^verbatim>\<open>BaseMessage\<close> of some type, which has
  a \<^verbatim>\<open>content\<close> attribute, or any other Python value, which has none (the test suite
  passes dictionaries with a \<^verbatim>\<open>"content"\<close> key).
\<close>

datatype message = BaseMessage string pyval | Other pyval

text \<open>\<^verbatim>\<open>type(v).__name__\<close>\<close>

fun type_name :: "pyval \<Rightarrow> string" where
  "type_name PNone = ''NoneType''"
| "type_name (PBool b) = ''bool''"
| "type_name (PInt i) = ''int''"
| "type_name (PStr s) = ''str''"
| "type_name (PList xs) = ''list''"
| "type_name (PDict kvs) = ''dict''"

text \<open>
  \<^verbatim>\<open>msg.content\<close>: the attribute, or the \<^verbatim>\<open>AttributeError\<close> Python raises for an object
  without it (\<open>CHR 0x27\<close> is the single quote of its message).
\<close>

fun attr_content :: "message \<Rightarrow> exn + pyval" where
  "attr_content (BaseMessage t c) = Inr c"
| "attr_content (Other v) =
     Inl (Exn ''AttributeError''
            ([CHR 0x27] @ type_name v @ [CHR 0x27] @ '' object has no attribute '' @
             [CHR 0x27] @ ''content'' @ [CHR 0x27]))"

text \<open>\<^verbatim>\<open>[msg.content for msg in messages]\<close>: stops at the first message that raises.\<close>

fun message_contents :: "message list \<Rightarrow> exn + pyval list" where
  "message_contents [] = Inr []"
| "message_contents (msg # msgs) =
     (case attr_content msg of
        Inl e \<Rightarrow> Inl e
      | Inr c \<Rightarrow> (case message_contents msgs of Inl e \<Rightarrow> Inl e | Inr cs \<Rightarrow> Inr (c # cs)))"

text \<open>
  The response object of the model: \<open>resp_content\<close> is its \<^verbatim>\<open>content\<close> attribute when
  it has one, \<open>resp_str\<close> is \<^verbatim>\<open>str(response)\<close>.
\<close>

datatype response = Response (resp_content: "pyval option") (resp_str: string)

datatype log_level = LInfo | LError

datatype event =
    Client_create_run create_args
  | Client_end_run end_args
  | Log log_level string pydict
  | Call_extract_company_info string
  | Call_search_documents pyval string
  | Call_generate_answer string "pyval list" pyval
  | Call_execute pydict
  | Call_llm_ainvoke "message list" pydict

text \<open>
  The world: the values \<^verbatim>\<open>str(uuid.uuid4())\<close> yields in this process (\<open>uuid_draws\<close>, the
  n-th draw) and how many were drawn, the state of the tracing backend behind the
  LangSmith client, and the events so far.
\<close>

record 'b world =
  uuid_draws :: "nat \<Rightarrow> string"
  uuid_count :: nat
  backend :: 'b
  events :: "event list"

text \<open>
  A Python computation: from a world to either a raised exception (\<open>Inl\<close>) or a returned
  value (\<open>Inr\<close>), and the world it leaves behind. Effects made before a \<^verbatim>\<open>raise\<close> stay.
\<close>

type_synonym ('w, 'a) py = "'w \<Rightarrow> (exn + 'a) \<times> 'w"

definition py_return :: "'a \<Rightarrow> ('w, 'a) py" where
  "py_return x = (\<lambda>w. (Inr x, w))"

definition py_raise :: "exn \<Rightarrow> ('w, 'a) py" where
  "py_raise e = (\<lambda>w. (Inl e, w))"

text \<open>An expression that yields a value or raises, and leaves the world as it is.\<close>

definition py_result :: "exn + 'a \<Rightarrow> ('w, 'a) py" where
  "py_result r = (\<lambda>w. (r, w))"

definition py_bind :: "('w, 'a) py \<Rightarrow> ('a \<Rightarrow> ('w, 'b) py) \<Rightarrow> ('w, 'b) py" where
  "py_bind m f = (\<lambda>w. case m w of (Inl e, w') \<Rightarrow> (Inl e, w') | (Inr x, w') \<Rightarrow> f x w')"

text \<open>\<^verbatim>\<open>try: m  except Exception as e: h(e)\<close>\<close>

definition py_try :: "('w, 'a) py \<Rightarrow> (exn \<Rightarrow> ('w, 'a) py) \<Rightarrow> ('w, 'a) py" where
  "py_try m h = (\<lambda>w. case m w of (Inl e, w') \<Rightarrow> h e w' | (Inr x, w') \<Rightarrow> (Inr x, w'))"

text \<open>\<^verbatim>\<open>if c: m\<close> for a statement \<open>m\<close>.\<close>

definition py_when :: "bool \<Rightarrow> ('w, 'a) py \<Rightarrow> ('w, unit) py" where
  "py_when c m = (if c then py_bind m (\<lambda>_. py_return ()) else py_return ())"

text \<open>
  \<^verbatim>\<open>if self.enable_tracing and run_id: m(run_id)\<close>, where \<open>run_id\<close> is \<^verbatim>\<open>None\<close> or a
  string: the empty string is as false as \<^verbatim>\<open>None\<close>.
\<close>

definition when_traced :: "bool \<Rightarrow> string option \<Rightarrow> (string \<Rightarrow> ('w, 'a) py) \<Rightarrow> ('w, unit) py" where
  "when_traced tracing run_id m =
     (case run_id of
        None \<Rightarrow> py_return ()
      | Some r \<Rightarrow> py_when (tracing \<and> r \<noteq> []) (m r))"

text \<open>\<^verbatim>\<open>str(uuid.uuid4())\<close>: the next draw.\<close>

definition uuid4_str :: "('b world, string) py" where
  "uuid4_str = (\<lambda>w. (Inr (uuid_draws w (uuid_count w)), w\<lparr>uuid_count := Suc (uuid_count w)\<rparr>))"

text \<open>\<^verbatim>\<open>logger.info(msg, **fields)\<close> and \<^verbatim>\<open>logger.error(msg, **fields)\<close> of structlog.\<close>

definition log :: "log_level \<Rightarrow> string \<Rightarrow> pydict \<Rightarrow> ('b world, unit) py" where
  "log lvl msg kvs = (\<lambda>w. (Inr (), w\<lparr>events := events w @ [Log lvl msg kvs]\<rparr>))"

section \<open>config/langsmith\_config.py\<close>

text \<open>
  The LangSmith client is external: each of its two methods may return or raise, and may
  change the state of the backend in either case.
\<close>

record 'b Client =
  client_create_run :: "create_args \<Rightarrow> 'b \<Rightarrow> (exn + pyval) \<times> 'b"
  client_end_run :: "end_args \<Rightarrow> 'b \<Rightarrow> (exn + unit) \<times> 'b"

record 'b LangSmithConfig =
  enabled :: bool
  client :: "'b Client option"
  project_name :: string

definition is_enabled :: "'b LangSmithConfig \<Rightarrow> bool" where
  "is_enabled cfg = enabled cfg"

text \<open>\<^verbatim>\<open>self.client.create_run(...)\<close> and \<^verbatim>\<open>self.client.end_run(...)\<close> in the world.\<close>

definition call_client_create_run :: "'b Client \<Rightarrow> create_args \<Rightarrow> ('b world, pyval) py" where
  "call_client_create_run cl args =
     (\<lambda>w. case client_create_run cl args (backend w) of
             (r, b') \<Rightarrow> (r, w\<lparr>backend := b', events := events w @ [Client_create_run args]\<rparr>))"

definition call_client_end_run :: "'b Client \<Rightarrow> end_args \<Rightarrow> ('b world, unit) py" where
  "call_client_end_run cl args =
     (\<lambda>w. case client_end_run cl args (backend w) of
             (r, b') \<Rightarrow> (r, w\<lparr>backend := b', events := events w @ [Client_end_run args]\<rparr>))"

text \<open>\<^verbatim>\<open>LangSmithConfig.create_run(self, name, inputs, **kwargs)\<close>\<close>

definition create_run ::
  "'b LangSmithConfig \<Rightarrow> string \<Rightarrow> pyval \<Rightarrow> pydict \<Rightarrow> ('b world, pyval) py" where
  "create_run cfg name inputs kwargs =
     (if \<not> enabled cfg then py_return PNone
      else case client cfg of
        None \<Rightarrow> py_return PNone
      | Some cl \<Rightarrow>
          py_try
            (call_client_create_run cl (Create_args name inputs (project_name cfg) kwargs))
            (\<lambda>e. py_bind (log LError ''Failed to create LangSmith run'' [(''error'', PStr (exn_str e))])
                    (\<lambda>_. py_return PNone)))"

text \<open>\<^verbatim>\<open>LangSmithConfig.end_run(self, run_id, outputs=None, error=None)\<close>\<close>

definition end_run ::
  "'b LangSmithConfig \<Rightarrow> string \<Rightarrow> pyval option \<Rightarrow> exn option \<Rightarrow> ('b world, unit) py" where
  "end_run cfg run_id outputs error =
     (if \<not> enabled cfg then py_return ()
      else case client cfg of
        None \<Rightarrow> py_return ()
      | Some cl \<Rightarrow>
          py_try
            (call_client_end_run cl (End_args run_id outputs error))
            (\<lambda>e. log LError ''Failed to end LangSmith run'' [(''error'', PStr (exn_str e))]))"

section \<open>services/enhanced\_qa\_chatbot.py\<close>

text \<open>
  \<open>EnhancedQAChatbot\<close> inherits its three pipeline stages from \<open>QAChatbot\<close>
  (\<^verbatim>\<open>_extract_company_info\<close>, \<^verbatim>\<open>_search_documents\<close>, \<^verbatim>\<open>_generate_answer\<close>). They are
  collaborators behind a narrow interface: each returns a value or raises. The leading
  underscore of the Python names is dropped.
\<close>

record chatbot =
  enable_tracing :: bool
  chatbot_name :: string
  extract_company_info :: "string \<Rightarrow> exn + pyval"
  search_documents :: "pyval \<Rightarrow> string \<Rightarrow> exn + pyval list"
  generate_answer :: "string \<Rightarrow> pyval list \<Rightarrow> pyval \<Rightarrow> exn + string"

text \<open>
  \<^verbatim>\<open>__init__\<close>: \<^verbatim>\<open>self.enable_tracing = enable_tracing and langsmith_config.is_enabled()\<close>.
\<close>

definition EnhancedQAChatbot ::
  "'b LangSmithConfig \<Rightarrow> bool \<Rightarrow> (string \<Rightarrow> exn + pyval) \<Rightarrow> (pyval \<Rightarrow> string \<Rightarrow> exn + pyval list)
     \<Rightarrow> (string \<Rightarrow> pyval list \<Rightarrow> pyval \<Rightarrow> exn + string) \<Rightarrow> chatbot" where
  "EnhancedQAChatbot cfg tracing ex se ge =
     \<lparr>enable_tracing = (tracing \<and> is_enabled cfg), chatbot_name = ''EnhancedQAChatbot'',
      extract_company_info = ex, search_documents = se, generate_answer = ge\<rparr>"

text \<open>\<^verbatim>\<open>await self._extract_company_info(question)\<close> and its two siblings.\<close>

definition call_extract_company_info :: "chatbot \<Rightarrow> string \<Rightarrow> ('b world, pyval) py" where
  "call_extract_company_info self question =
     (\<lambda>w. (extract_company_info self question,
           w\<lparr>events := events w @ [Call_extract_company_info question]\<rparr>))"

definition call_search_documents :: "chatbot \<Rightarrow> pyval \<Rightarrow> string \<Rightarrow> ('b world, pyval list) py" where
  "call_search_documents self company_info question =
     (\<lambda>w. (search_documents self company_info question,
           w\<lparr>events := events w @ [Call_search_documents company_info question]\<rparr>))"

definition call_generate_answer ::
  "chatbot \<Rightarrow> string \<Rightarrow> pyval list \<Rightarrow> pyval \<Rightarrow> ('b world, string) py" where
  "call_generate_answer self question docs company_info =
     (\<lambda>w. (generate_answer self question docs company_info,
           w\<lparr>events := events w @ [Call_generate_answer question docs company_info]\<rparr>))"

text \<open>
  \<^verbatim>\<open>x = None; if self.enable_tracing: x = str(uuid.uuid4()); langsmith_config.create_run(.., run_id=x, ..)\<close>:
  the pattern that opens a span. \<open>mk\<close> is the \<^verbatim>\<open>create_run\<close> call for the drawn id.
\<close>

definition open_span :: "bool \<Rightarrow> (string \<Rightarrow> ('b world, pyval) py) \<Rightarrow> ('b world, string option) py" where
  "open_span tracing mk =
     (if tracing
      then py_bind uuid4_str (\<lambda>u. py_bind (mk u) (\<lambda>_. py_return (Some u)))
      else py_return None)"

text \<open>Lines 55--78 of \<^verbatim>\<open>ask_question\<close>: company extraction in its child span.\<close>

definition company_extraction ::
  "'b LangSmithConfig \<Rightarrow> chatbot \<Rightarrow> string \<Rightarrow> string option \<Rightarrow> ('b world, pyval) py" where
  "company_extraction cfg self question run_id =
     py_bind
       (open_span (enable_tracing self) (\<lambda>u.
          create_run cfg ''company_extraction'' (PDict [(''question'', PStr question)])
            [(''run_id'', PStr u),
             (''tags'', PList [PStr ''chatbot'', PStr ''company-extraction'']),
             (''parent_run_id'', opt_str run_id)]))
       (\<lambda>company_extraction_run_id.
          py_try
            (py_bind (call_extract_company_info self question) (\<lambda>company_info.
             py_bind (when_traced (enable_tracing self) company_extraction_run_id (\<lambda>r.
                        end_run cfg r (Some (PDict [(''company_info'', company_info)])) None)) (\<lambda>_.
             py_return company_info)))
            (\<lambda>e.
             py_bind (when_traced (enable_tracing self) company_extraction_run_id (\<lambda>r.
                        end_run cfg r None (Some e))) (\<lambda>_.
             py_raise e)))"

text \<open>Lines 80--103: document search in its child span.\<close>

definition document_search ::
  "'b LangSmithConfig \<Rightarrow> chatbot \<Rightarrow> string \<Rightarrow> string option \<Rightarrow> pyval \<Rightarrow> ('b world, pyval list) py" where
  "document_search cfg self question run_id company_info =
     py_bind
       (open_span (enable_tracing self) (\<lambda>u.
          create_run cfg ''document_search''
            (PDict [(''company_info'', company_info), (''question'', PStr question)])
            [(''run_id'', PStr u),
             (''tags'', PList [PStr ''chatbot'', PStr ''document-search'']),
             (''parent_run_id'', opt_str run_id)]))
       (\<lambda>document_search_run_id.
          py_try
            (py_bind (call_search_documents self company_info question) (\<lambda>relevant_docs.
             py_bind (when_traced (enable_tracing self) document_search_run_id (\<lambda>r.
                        end_run cfg r
                          (Some (PDict [(''document_count'', PInt (int (length relevant_docs)))]))
                          None)) (\<lambda>_.
             py_return relevant_docs)))
            (\<lambda>e.
             py_bind (when_traced (enable_tracing self) document_search_run_id (\<lambda>r.
                        end_run cfg r None (Some e))) (\<lambda>_.
             py_raise e)))"

text \<open>Lines 105--132: answer generation in its child span.\<close>

definition answer_generation ::
  "'b LangSmithConfig \<Rightarrow> chatbot \<Rightarrow> string \<Rightarrow> string option \<Rightarrow> pyval \<Rightarrow> pyval list
     \<Rightarrow> ('b world, string) py" where
  "answer_generation cfg self question run_id company_info relevant_docs =
     py_bind
       (open_span (enable_tracing self) (\<lambda>u.
          create_run cfg ''answer_generation''
            (PDict [(''question'', PStr question),
                    (''document_count'', PInt (int (length relevant_docs))),
                    (''company_info'', company_info)])
            [(''run_id'', PStr u),
             (''tags'', PList [PStr ''chatbot'', PStr ''answer-generation'']),
             (''parent_run_id'', opt_str run_id)]))
       (\<lambda>answer_generation_run_id.
          py_try
            (py_bind (call_generate_answer self question relevant_docs company_info) (\<lambda>answer.
             py_bind (when_traced (enable_tracing self) answer_generation_run_id (\<lambda>r.
                        end_run cfg r (Some (PDict [(''answer'', PStr answer)])) None)) (\<lambda>_.
             py_return answer)))
            (\<lambda>e.
             py_bind (when_traced (enable_tracing self) answer_generation_run_id (\<lambda>r.
                        end_run cfg r None (Some e))) (\<lambda>_.
             py_raise e)))"

text \<open>Lines 134--140: the exchange record.\<close>

definition exchange :: "string \<Rightarrow> string \<Rightarrow> pyval \<Rightarrow> pyval list \<Rightarrow> pyval" where
  "exchange question answer company_info relevant_docs =
     PDict [(''question'', PStr question),
            (''answer'', PStr answer),
            (''company_info'', company_info),
            (''sources'', PList relevant_docs),
            (''document_count'', PInt (int (length relevant_docs)))]"

text \<open>Lines 51--150: what follows the opening of the root span, up to the return.\<close>

definition ask_question_stages ::
  "'b LangSmithConfig \<Rightarrow> chatbot \<Rightarrow> string \<Rightarrow> string option \<Rightarrow> ('b world, pyval) py" where
  "ask_question_stages cfg self question run_id =
     py_bind (log LInfo ''Processing question''
                [(''question'',
                    PStr (if length question > 100 then take 100 question @ ''...''
                          else question)),
                 (''tracing_enabled'', PBool (enable_tracing self))]) (\<lambda>_.
     py_bind (company_extraction cfg self question run_id) (\<lambda>company_info.
     py_bind (document_search cfg self question run_id company_info) (\<lambda>relevant_docs.
     py_bind (answer_generation cfg self question run_id company_info relevant_docs) (\<lambda>answer.
     py_bind (log LInfo ''Question processed successfully''
                [(''document_count'', PInt (int (length relevant_docs))),
                 (''has_company'', PBool (truthy company_info))]) (\<lambda>_.
     py_bind (when_traced (enable_tracing self) run_id (\<lambda>r.
                end_run cfg r (Some (exchange question answer company_info relevant_docs)) None))
       (\<lambda>_.
     py_return (exchange question answer company_info relevant_docs)))))))"

text \<open>Lines 152--158: the handler of the outer \<^verbatim>\<open>try\<close>.\<close>

definition ask_question_failed ::
  "'b LangSmithConfig \<Rightarrow> chatbot \<Rightarrow> string option \<Rightarrow> exn \<Rightarrow> ('b world, pyval) py" where
  "ask_question_failed cfg self run_id e =
     py_bind (log LError ''Failed to process question'' [(''error'', PStr (exn_str e))]) (\<lambda>_.
     py_bind (when_traced (enable_tracing self) run_id (\<lambda>r. end_run cfg r None (Some e))) (\<lambda>_.
     py_raise e))"

text \<open>
  \<^verbatim>\<open>ask_question(self, question, conversation_history=None)\<close>. \<open>run_id\<close> is \<^verbatim>\<open>None\<close>
  before the \<^verbatim>\<open>try\<close>; with tracing on, the first statement of the \<^verbatim>\<open>try\<close> assigns it
  the drawn id, and nothing can raise before that assignment.
\<close>

definition ask_question ::
  "'b LangSmithConfig \<Rightarrow> chatbot \<Rightarrow> string \<Rightarrow> pyval list option \<Rightarrow> ('b world, pyval) py" where
  "ask_question cfg self question conversation_history =
     (if enable_tracing self
      then py_bind uuid4_str (\<lambda>run_id.
             py_try
               (py_bind (create_run cfg (chatbot_name self @ ''_query'')
                           (PDict [(''question'', PStr question),
                                   (''conversation_history'',
                                      (case conversation_history of
                                         None \<Rightarrow> PList []
                                       | Some h \<Rightarrow> if h \<noteq> [] then PList h else PList []))])
                           [(''run_id'', PStr run_id),
                            (''tags'', PList [PStr ''chatbot'', PStr ''qa'', PStr ''query''])]) (\<lambda>_.
                ask_question_stages cfg self question (Some run_id)))
               (ask_question_failed cfg self (Some run_id)))
      else py_try (ask_question_stages cfg self question None)
                  (ask_question_failed cfg self None))"

text \<open>
  \<^verbatim>\<open>start_conversation_session(self, session_id=None)\<close>: \<^verbatim>\<open>if not session_id\<close> draws
  an id for \<^verbatim>\<open>None\<close> and for the empty string alike.
\<close>

definition start_conversation_session ::
  "'b LangSmithConfig \<Rightarrow> chatbot \<Rightarrow> string option \<Rightarrow> ('b world, string) py" where
  "start_conversation_session cfg self session_id =
     py_bind
       (case session_id of
          None \<Rightarrow> uuid4_str
        | Some s \<Rightarrow> if s = [] then uuid4_str else py_return s)
       (\<lambda>sid.
          py_bind (py_when (enable_tracing self)
                     (create_run cfg (chatbot_name self @ ''_session'')
                        (PDict [(''session_id'', PStr sid)])
                        [(''run_id'', PStr sid),
                         (''tags'', PList [PStr ''chatbot'', PStr ''session''])])) (\<lambda>_.
          py_bind (log LInfo ''Conversation session started'' [(''session_id'', PStr sid)]) (\<lambda>_.
          py_return sid)))"

text \<open>\<^verbatim>\<open>end_conversation_session(self, session_id, summary=None)\<close>\<close>

definition end_conversation_session ::
  "'b LangSmithConfig \<Rightarrow> chatbot \<Rightarrow> string \<Rightarrow> string option \<Rightarrow> ('b world, unit) py" where
  "end_conversation_session cfg self session_id summary =
     py_bind (py_when (enable_tracing self)
                (end_run cfg session_id
                   (Some (PDict ((''session_ended'', PBool True) #
                                 (case summary of
                                    None \<Rightarrow> []
                                  | Some s \<Rightarrow> if s \<noteq> [] then [(''summary'', PStr s)] else []))))
                   None)) (\<lambda>_.
     log LInfo ''Conversation session ended'' [(''session_id'', PStr session_id)])"

section \<open>agents/enhanced\_base\_agent.py\<close>

text \<open>
  An agent: the subclass's \<^verbatim>\<open>_execute\<close> (\<open>execute_impl\<close>) maps an input dictionary to
  a result dictionary or raises; \<^verbatim>\<open>self.llm.ainvoke\<close> maps messages and keyword
  arguments to a response object or raises.
\<close>

record agent =
  agent_enable_tracing :: bool
  agent_name :: string
  execute_impl :: "pydict \<Rightarrow> exn + pydict"
  llm_ainvoke :: "message list \<Rightarrow> pydict \<Rightarrow> exn + response"

definition call_execute_impl :: "agent \<Rightarrow> pydict \<Rightarrow> ('b world, pydict) py" where
  "call_execute_impl self input_data =
     (\<lambda>w. (execute_impl self input_data, w\<lparr>events := events w @ [Call_execute input_data]\<rparr>))"

definition call_llm_ainvoke :: "agent \<Rightarrow> message list \<Rightarrow> pydict \<Rightarrow> ('b world, response) py" where
  "call_llm_ainvoke self messages kwargs =
     (\<lambda>w. (llm_ainvoke self messages kwargs,
           w\<lparr>events := events w @ [Call_llm_ainvoke messages kwargs]\<rparr>))"

text \<open>\<^verbatim>\<open>list(d.keys())\<close>\<close>

definition keys_list :: "pydict \<Rightarrow> pyval" where
  "keys_list d = PList (map (\<lambda>kv. PStr (fst kv)) d)"

text \<open>
  \<^verbatim>\<open>EnhancedBaseAgent.execute(self, input_data)\<close>: lines 68--81 after the span is
  opened, lines 83--92 the handler.
\<close>

definition execute_run :: "'b LangSmithConfig \<Rightarrow> agent \<Rightarrow> pydict \<Rightarrow> string option \<Rightarrow> ('b world, pydict) py" where
  "execute_run cfg self input_data run_id =
     py_bind (log LInfo ''Agent execution started''
                [(''input_keys'', keys_list input_data),
                 (''tracing_enabled'', PBool (agent_enable_tracing self))]) (\<lambda>_.
     py_bind (call_execute_impl self input_data) (\<lambda>result.
     py_bind (log LInfo ''Agent execution completed'' [(''result_keys'', keys_list result)]) (\<lambda>_.
     py_bind (when_traced (agent_enable_tracing self) run_id (\<lambda>r.
                end_run cfg r (Some (PDict result)) None)) (\<lambda>_.
     py_return result))))"

definition execute_failed :: "'b LangSmithConfig \<Rightarrow> agent \<Rightarrow> string option \<Rightarrow> exn \<Rightarrow> ('b world, pydict) py" where
  "execute_failed cfg self run_id e =
     py_bind (log LError ''Agent execution failed''
                [(''error'', PStr (exn_str e)), (''error_type'', PStr (exn_type e))]) (\<lambda>_.
     py_bind (when_traced (agent_enable_tracing self) run_id (\<lambda>r.
                end_run cfg r None (Some e))) (\<lambda>_.
     py_raise e))"

definition execute :: "'b LangSmithConfig \<Rightarrow> agent \<Rightarrow> pydict \<Rightarrow> ('b world, pydict) py" where
  "execute cfg self input_data =
     (if agent_enable_tracing self
      then py_bind uuid4_str (\<lambda>run_id.
             py_try
               (py_bind (create_run cfg (agent_name self @ ''_execute'') (PDict input_data)
                           [(''run_id'', PStr run_id),
                            (''tags'', PList [PStr ''agent'', PStr (lower (agent_name self))])]) (\<lambda>_.
                execute_run cfg self input_data (Some run_id)))
               (execute_failed cfg self (Some run_id)))
      else py_try (execute_run cfg self input_data None) (execute_failed cfg self None))"

text \<open>
  \<^verbatim>\<open>getattr(response, "content", str(response))\<close>: the attribute when the object has
  it, the string of the object otherwise.
\<close>

definition getattr_content :: "response \<Rightarrow> pyval" where
  "getattr_content response =
     (case resp_content response of Some c \<Rightarrow> c | None \<Rightarrow> PStr (resp_str response))"

text \<open>
  \<^verbatim>\<open>EnhancedBaseAgent._call_llm(self, messages, **kwargs)\<close>: lines 128--134 after the
  span is opened, lines 136--142 the handler. With tracing on, the arguments of
  \<^verbatim>\<open>create_run\<close> are evaluated inside the \<^verbatim>\<open>try\<close>, before the model is invoked: the
  comprehension over \<^verbatim>\<open>msg.content\<close> among them.
\<close>

definition call_llm_run ::
  "'b LangSmithConfig \<Rightarrow> agent \<Rightarrow> message list \<Rightarrow> pydict \<Rightarrow> string option \<Rightarrow> ('b world, pyval) py" where
  "call_llm_run cfg self messages kwargs run_id =
     py_bind (call_llm_ainvoke self messages kwargs) (\<lambda>response.
     py_bind (when_traced (agent_enable_tracing self) run_id (\<lambda>r.
                end_run cfg r (Some (PDict [(''response'', getattr_content response)])) None)) (\<lambda>_.
     py_return (getattr_content response)))"

definition call_llm_failed :: "'b LangSmithConfig \<Rightarrow> agent \<Rightarrow> string option \<Rightarrow> exn \<Rightarrow> ('b world, pyval) py" where
  "call_llm_failed cfg self run_id e =
     py_bind (log LError ''LLM call failed'' [(''error'', PStr (exn_str e))]) (\<lambda>_.
     py_bind (when_traced (agent_enable_tracing self) run_id (\<lambda>r.
                end_run cfg r None (Some e))) (\<lambda>_.
     py_raise e))"

definition call_llm :: "'b LangSmithConfig \<Rightarrow> agent \<Rightarrow> message list \<Rightarrow> pydict \<Rightarrow> ('b world, pyval) py" where
  "call_llm cfg self messages kwargs =
     (if agent_enable_tracing self
      then py_bind uuid4_str (\<lambda>run_id.
             py_try
               (py_bind (py_result (message_contents messages)) (\<lambda>contents.
                py_bind (create_run cfg (agent_name self @ ''_llm_call'')
                           (PDict ((''messages'', PList contents) # kwargs))
                           [(''run_id'', PStr run_id),
                            (''tags'', PList [PStr ''llm'', PStr (lower (agent_name self))])]) (\<lambda>_.
                call_llm_run cfg self messages kwargs (Some run_id))))
               (call_llm_failed cfg self (Some run_id)))
      else py_try (call_llm_run cfg self messages kwargs None) (call_llm_failed cfg self None))"

section \<open>Observing a run\<close>

text \<open>
  Tracing reaches the backend only when the configuration is enabled and holds a client.
\<close>

definition active :: "'b LangSmithConfig \<Rightarrow> bool" where
  "active cfg = (enabled cfg \<and> client cfg \<noteq> None)"

text \<open>The calls to \<^verbatim>\<open>client.end_run\<close> and \<^verbatim>\<open>client.create_run\<close> among the events, in order.\<close>

definition end_calls :: "event list \<Rightarrow> end_args list" where
  "end_calls evs = concat (map (\<lambda>ev. case ev of Client_end_run a \<Rightarrow> [a] | _ \<Rightarrow> []) evs)"

definition create_calls :: "event list \<Rightarrow> create_args list" where
  "create_calls evs = concat (map (\<lambda>ev. case ev of Client_create_run a \<Rightarrow> [a] | _ \<Rightarrow> []) evs)"

text \<open>The invocations of the three pipeline stages among the events.\<close>

definition is_stage_call :: "event \<Rightarrow> bool" where
  "is_stage_call ev =
     (case ev of
        Call_extract_company_info _ \<Rightarrow> True
      | Call_search_documents _ _ \<Rightarrow> True
      | Call_generate_answer _ _ _ \<Rightarrow> True
      | _ \<Rightarrow> False)"

definition stage_calls :: "event list \<Rightarrow> event list" where
  "stage_calls evs = filter is_stage_call evs"

text \<open>What one run of a computation adds, from the world \<open>w\<close> it starts in.\<close>

definition stage_calls_during :: "('b world, 'a) py \<Rightarrow> 'b world \<Rightarrow> event list" where
  "stage_calls_during m w =
     drop (length (stage_calls (events w))) (stage_calls (events (snd (m w))))"

definition opened_during :: "('b world, 'a) py \<Rightarrow> 'b world \<Rightarrow> create_args list" where
  "opened_during m w =
     drop (length (create_calls (events w))) (create_calls (events (snd (m w))))"

definition closed_during :: "('b world, 'a) py \<Rightarrow> 'b world \<Rightarrow> end_args list" where
  "closed_during m w =
     drop (length (end_calls (events w))) (end_calls (events (snd (m w))))"

text \<open>The id a span was opened under: the \<^verbatim>\<open>run_id\<close> keyword of the call.\<close>

definition span_id :: "create_args \<Rightarrow> pyval" where
  "span_id a = (case map_of (ca_kwargs a) ''run_id'' of None \<Rightarrow> PNone | Some v \<Rightarrow> v)"

definition closed_with_outputs :: "end_args \<Rightarrow> bool" where
  "closed_with_outputs a = (er_outputs a \<noteq> None \<and> er_error a = None)"

definition closed_with_error :: "exn \<Rightarrow> end_args \<Rightarrow> bool" where
  "closed_with_error e a = (er_outputs a = None \<and> er_error a = Some e)"

text \<open>\<^verbatim>\<open>d[key]\<close> on a dictionary value.\<close>

definition field :: "pyval \<Rightarrow> string \<Rightarrow> pyval option" where
  "field d k = (case d of PDict kvs \<Rightarrow> map_of kvs k | _ \<Rightarrow> None)"

text \<open>
  The three stages in sequence with no tracing and no logging: the outcome
  \<^verbatim>\<open>ask_question\<close> is compared with.
\<close>

definition bare_pipeline :: "chatbot \<Rightarrow> string \<Rightarrow> exn + pyval" where
  "bare_pipeline self q =
     (case extract_company_info self q of
        Inl e \<Rightarrow> Inl e
      | Inr ci \<Rightarrow>
          (case search_documents self ci q of
             Inl e \<Rightarrow> Inl e
           | Inr docs \<Rightarrow>
               (case generate_answer self q docs ci of
                  Inl e \<Rightarrow> Inl e
                | Inr a \<Rightarrow> Inr (exchange q a ci docs))))"

text \<open>A caller that starts \<open>n\<close> sessions in a row, each with no id, and collects the ids.\<close>

fun start_sessions :: "'b LangSmithConfig \<Rightarrow> chatbot \<Rightarrow> nat \<Rightarrow> ('b world, string list) py" where
  "start_sessions cfg self 0 = py_return []"
| "start_sessions cfg self (Suc n) =
     py_bind (start_conversation_session cfg self None) (\<lambda>sid.
     py_bind (start_sessions cfg self n) (\<lambda>sids.
     py_return (sid # sids)))"

section \<open>A test environment\<close>

text \<open>
  The environment of \<^verbatim>\<open>tests/test_langsmith_integration.py\<close>, with a tracing backend
  that is unreachable: both client methods raise.
\<close>

definition example_uuid :: "nat \<Rightarrow> string" where
  "example_uuid n = replicate (Suc n) CHR ''u''"

definition unreachable :: exn where
  "unreachable = Exn ''ConnectionError'' ''backend unreachable''"

definition raising_client :: "unit Client" where
  "raising_client =
     \<lparr>client_create_run = (\<lambda>args b. (Inl unreachable, b)),
      client_end_run = (\<lambda>args b. (Inl unreachable, b))\<rparr>"

definition traced_config :: "unit LangSmithConfig" where
  "traced_config = \<lparr>enabled = True, client = Some raising_client, project_name = ''test-project''\<rparr>"

definition disabled_config :: "unit LangSmithConfig" where
  "disabled_config = \<lparr>enabled = False, client = None, project_name = ''financial-ai''\<rparr>"

definition test_world :: "unit world" where
  "test_world = \<lparr>uuid_draws = example_uuid, uuid_count = 0, backend = (), events = []\<rparr>"

definition test_chatbot :: chatbot where
  "test_chatbot =
     EnhancedQAChatbot traced_config True
       (\<lambda>q. Inr (PDict [(''name'', PStr ''Test Corp'')]))
       (\<lambda>ci q. Inr [PStr ''doc1'', PStr ''doc2''])
       (\<lambda>q docs ci. Inr ''Test answer'')"

definition lookup_failure :: exn where
  "lookup_failure = Exn ''LookupFailure'' ''no such company''"

definition extraction_fails :: chatbot where
  "extraction_fails = test_chatbot\<lparr>extract_company_info := (\<lambda>q. Inl lookup_failure)\<rparr>"

definition search_fails :: chatbot where
  "search_fails = test_chatbot\<lparr>search_documents := (\<lambda>ci q. Inl lookup_failure)\<rparr>"

definition generation_fails :: chatbot where
  "generation_fails = test_chatbot\<lparr>generate_answer := (\<lambda>q docs ci. Inl lookup_failure)\<rparr>"

text \<open>The mock agent of the tests, and one whose \<^verbatim>\<open>_execute\<close> fails.\<close>

definition test_agent :: agent where
  "test_agent =
     \<lparr>agent_enable_tracing = True, agent_name = ''MockEnhancedAgent'',
      execute_impl = (\<lambda>input_data. Inr [(''result'', PStr ''test''), (''input'', PDict input_data)]),
      llm_ainvoke = (\<lambda>messages kwargs. Inr (Response (Some (PStr ''test response'')) ''<Mock>''))\<rparr>"

definition failing_agent :: agent where
  "failing_agent = test_agent\<lparr>execute_impl := (\<lambda>input_data. Inl (Exn ''ValueError'' ''bad input''))\<rparr>"

section \<open>The effect monad\<close>

lemma py_bind_return [simp]: "py_bind (py_return x) f = f x"
  by (simp add: py_bind_def py_return_def)

lemma py_bind_no_raise:
  "\<not> isl (fst (m w)) \<Longrightarrow> py_bind m f w = f (projr (fst (m w))) (snd (m w))"
  by (cases "m w"; cases "fst (m w)") (auto simp: py_bind_def)

lemma py_bind_uuid4_str [simp]:
  "py_bind uuid4_str f w = f (uuid_draws w (uuid_count w)) (w\<lparr>uuid_count := Suc (uuid_count w)\<rparr>)"
  by (simp add: py_bind_def uuid4_str_def)

lemma py_bind_log [simp]:
  "py_bind (log lvl msg kvs) f w = f () (w\<lparr>events := events w @ [Log lvl msg kvs]\<rparr>)"
  by (simp add: py_bind_def log_def)

lemma create_run_cases [case_names inactive returned raised]:
  obtains
    (inactive) "\<not> active cfg" "create_run cfg name inputs kwargs w = (Inr PNone, w)"
  | (returned) cl h b' where "active cfg" "client cfg = Some cl"
      "client_create_run cl (Create_args name inputs (project_name cfg) kwargs) (backend w) = (Inr h, b')"
      "create_run cfg name inputs kwargs w =
         (Inr h, w\<lparr>backend := b',
                   events := events w @
                     [Client_create_run (Create_args name inputs (project_name cfg) kwargs)]\<rparr>)"
  | (raised) cl e b' where "active cfg" "client cfg = Some cl"
      "client_create_run cl (Create_args name inputs (project_name cfg) kwargs) (backend w) = (Inl e, b')"
      "create_run cfg name inputs kwargs w =
         (Inr PNone, w\<lparr>backend := b',
                       events := events w @
                         [Client_create_run (Create_args name inputs (project_name cfg) kwargs),
                          Log LError ''Failed to create LangSmith run''
                            [(''error'', PStr (exn_str e))]]\<rparr>)"
proof (cases "active cfg")
  case False
  then have "create_run cfg name inputs kwargs w = (Inr PNone, w)"
    by (auto simp: active_def create_run_def py_return_def)
  with False show ?thesis by (rule inactive)
next
  case True
  then obtain cl where cl: "client cfg = Some cl" and en: "enabled cfg"
    by (auto simp: active_def)
  obtain r b' where call:
    "client_create_run cl (Create_args name inputs (project_name cfg) kwargs) (backend w) = (r, b')"
    by fastforce
  show ?thesis
  proof (cases r)
    case (Inl e)
    with call cl en have "create_run cfg name inputs kwargs w =
         (Inr PNone, w\<lparr>backend := b',
                       events := events w @
                         [Client_create_run (Create_args name inputs (project_name cfg) kwargs),
                          Log LError ''Failed to create LangSmith run''
                            [(''error'', PStr (exn_str e))]]\<rparr>)"
      by (simp add: create_run_def py_try_def call_client_create_run_def py_bind_def log_def
            py_return_def)
    with True cl call Inl show ?thesis by (auto intro: raised)
  next
    case (Inr h)
    with call cl en have "create_run cfg name inputs kwargs w =
         (Inr h, w\<lparr>backend := b',
                   events := events w @
                     [Client_create_run (Create_args name inputs (project_name cfg) kwargs)]\<rparr>)"
      by (simp add: create_run_def py_try_def call_client_create_run_def)
    with True cl call Inr show ?thesis by (auto intro: returned)
  qed
qed

lemma end_run_cases [case_names inactive returned raised]:
  obtains
    (inactive) "\<not> active cfg" "end_run cfg run_id outputs error w = (Inr (), w)"
  | (returned) cl b' where "active cfg" "client cfg = Some cl"
      "client_end_run cl (End_args run_id outputs error) (backend w) = (Inr (), b')"
      "end_run cfg run_id outputs error w =
         (Inr (), w\<lparr>backend := b',
                    events := events w @ [Client_end_run (End_args run_id outputs error)]\<rparr>)"
  | (raised) cl e b' where "active cfg" "client cfg = Some cl"
      "client_end_run cl (End_args run_id outputs error) (backend w) = (Inl e, b')"
      "end_run cfg run_id outputs error w =
         (Inr (), w\<lparr>backend := b',
                    events := events w @
                      [Client_end_run (End_args run_id outputs error),
                       Log LError ''Failed to end LangSmith run''
                         [(''error'', PStr (exn_str e))]]\<rparr>)"
proof (cases "active cfg")
  case False
  then have "end_run cfg run_id outputs error w = (Inr (), w)"
    by (auto simp: active_def end_run_def py_return_def)
  with False show ?thesis by (rule inactive)
next
  case True
  then obtain cl where cl: "client cfg = Some cl" and en: "enabled cfg"
    by (auto simp: active_def)
  obtain r b' where call:
    "client_end_run cl (End_args run_id outputs error) (backend w) = (r, b')"
    by fastforce
  show ?thesis
  proof (cases r)
    case (Inl e)
    with call cl en have "end_run cfg run_id outputs error w =
         (Inr (), w\<lparr>backend := b',
                    events := events w @
                      [Client_end_run (End_args run_id outputs error),
                       Log LError ''Failed to end LangSmith run''
                         [(''error'', PStr (exn_str e))]]\<rparr>)"
      by (simp add: end_run_def py_try_def call_client_end_run_def log_def)
    with True cl call Inl show ?thesis by (auto intro: raised)
  next
    case (Inr u)
    with call cl en have "end_run cfg run_id outputs error w =
         (Inr (), w\<lparr>backend := b',
                    events := events w @ [Client_end_run (End_args run_id outputs error)]\<rparr>)"
      by (simp add: end_run_def py_try_def call_client_end_run_def)
    with True cl call Inr show ?thesis by (auto intro: returned)
  qed
qed

lemma create_run_no_raise [simp]: "\<not> isl (fst (create_run cfg name inputs kwargs w))"
  by (rule create_run_cases [of cfg name inputs kwargs w]) simp_all

lemma end_run_no_raise [simp]: "\<not> isl (fst (end_run cfg run_id outputs error w))"
  by (rule end_run_cases [of cfg run_id outputs error w]) simp_all

lemma end_run_fst [simp]: "fst (end_run cfg run_id outputs error w) = Inr ()"
  by (rule end_run_cases [of cfg run_id outputs error w]) simp_all

lemma create_run_uuid [simp]:
  "uuid_count (snd (create_run cfg name inputs kwargs w)) = uuid_count w"
  "uuid_draws (snd (create_run cfg name inputs kwargs w)) = uuid_draws w"
  by (rule create_run_cases [of cfg name inputs kwargs w]; simp)+

lemma end_run_uuid [simp]:
  "uuid_count (snd (end_run cfg run_id outputs error w)) = uuid_count w"
  "uuid_draws (snd (end_run cfg run_id outputs error w)) = uuid_draws w"
  by (rule end_run_cases [of cfg run_id outputs error w]; simp)+

lemma create_run_end_calls [simp]:
  "end_calls (events (snd (create_run cfg name inputs kwargs w))) = end_calls (events w)"
  by (rule create_run_cases [of cfg name inputs kwargs w]) (simp_all add: end_calls_def)

lemma create_run_create_calls [simp]:
  "create_calls (events (snd (create_run cfg name inputs kwargs w))) =
     create_calls (events w) @
       (if active cfg then [Create_args name inputs (project_name cfg) kwargs] else [])"
  by (rule create_run_cases [of cfg name inputs kwargs w]) (simp_all add: create_calls_def)

lemma create_run_stage_calls [simp]:
  "stage_calls (events (snd (create_run cfg name inputs kwargs w))) = stage_calls (events w)"
  by (rule create_run_cases [of cfg name inputs kwargs w])
     (simp_all add: stage_calls_def is_stage_call_def)

lemma end_run_end_calls [simp]:
  "end_calls (events (snd (end_run cfg run_id outputs error w))) =
     end_calls (events w) @ (if active cfg then [End_args run_id outputs error] else [])"
  by (rule end_run_cases [of cfg run_id outputs error w]) (simp_all add: end_calls_def)

lemma end_run_create_calls [simp]:
  "create_calls (events (snd (end_run cfg run_id outputs error w))) = create_calls (events w)"
  by (rule end_run_cases [of cfg run_id outputs error w]) (simp_all add: create_calls_def)

lemma end_run_stage_calls [simp]:
  "stage_calls (events (snd (end_run cfg run_id outputs error w))) = stage_calls (events w)"
  by (rule end_run_cases [of cfg run_id outputs error w])
     (simp_all add: stage_calls_def is_stage_call_def)


lemma py_bind_create_run [simp]:
  "py_bind (create_run cfg name inputs kwargs) f w =
     f (projr (fst (create_run cfg name inputs kwargs w))) (snd (create_run cfg name inputs kwargs w))"
  by (rule py_bind_no_raise) simp

lemma py_bind_end_run [simp]:
  "py_bind (end_run cfg run_id outputs error) f w = f () (snd (end_run cfg run_id outputs error w))"
  using py_bind_no_raise [of "end_run cfg run_id outputs error" w f] by simp

lemma py_bind_assoc [simp]: "py_bind (py_bind m g) f = py_bind m (\<lambda>x. py_bind (g x) f)"
  by (auto simp: py_bind_def fun_eq_iff split: prod.splits sum.splits)

lemma py_return_apply [simp]: "py_return x w = (Inr x, w)"
  by (simp add: py_return_def)

lemma py_raise_apply [simp]: "py_raise e w = (Inl e, w)"
  by (simp add: py_raise_def)

lemma py_bind_raise [simp]: "py_bind (py_raise e) f = py_raise e"
  by (simp add: py_bind_def py_raise_def)

lemma py_try_apply:
  "py_try m h w = (case m w of (Inl e, w') \<Rightarrow> h e w' | (Inr x, w') \<Rightarrow> (Inr x, w'))"
  by (simp add: py_try_def)

lemma py_bind_py_return_right [simp]: "py_bind m py_return = m"
  by (auto simp: py_bind_def py_return_def fun_eq_iff split: prod.splits sum.splits)

lemma when_traced_end_run [simp]:
  "py_bind (when_traced t rid (\<lambda>r. end_run cfg r outputs error)) f w =
     f () (case rid of
             None \<Rightarrow> w
           | Some r \<Rightarrow> if t \<and> r \<noteq> [] then snd (end_run cfg r outputs error w) else w)"
  by (cases rid) (simp_all add: when_traced_def py_when_def)

lemma py_bind_call_extract [simp]:
  "py_bind (call_extract_company_info self q) f w =
     (case extract_company_info self q of
        Inl e \<Rightarrow> (Inl e, w\<lparr>events := events w @ [Call_extract_company_info q]\<rparr>)
      | Inr x \<Rightarrow> f x (w\<lparr>events := events w @ [Call_extract_company_info q]\<rparr>))"
  by (simp add: py_bind_def call_extract_company_info_def split: sum.splits)

lemma py_bind_call_search [simp]:
  "py_bind (call_search_documents self ci q) f w =
     (case search_documents self ci q of
        Inl e \<Rightarrow> (Inl e, w\<lparr>events := events w @ [Call_search_documents ci q]\<rparr>)
      | Inr x \<Rightarrow> f x (w\<lparr>events := events w @ [Call_search_documents ci q]\<rparr>))"
  by (simp add: py_bind_def call_search_documents_def split: sum.splits)

lemma py_bind_call_generate [simp]:
  "py_bind (call_generate_answer self q docs ci) f w =
     (case generate_answer self q docs ci of
        Inl e \<Rightarrow> (Inl e, w\<lparr>events := events w @ [Call_generate_answer q docs ci]\<rparr>)
      | Inr x \<Rightarrow> f x (w\<lparr>events := events w @ [Call_generate_answer q docs ci]\<rparr>))"
  by (simp add: py_bind_def call_generate_answer_def split: sum.splits)

lemma stage_calls_append [simp]: "stage_calls (xs @ ys) = stage_calls xs @ stage_calls ys"
  by (simp add: stage_calls_def)

lemma end_calls_append [simp]: "end_calls (xs @ ys) = end_calls xs @ end_calls ys"
  by (simp add: end_calls_def)

lemma create_calls_append [simp]: "create_calls (xs @ ys) = create_calls xs @ create_calls ys"
  by (simp add: create_calls_def)

lemma is_stage_call_simps [simp]:
  "is_stage_call (Call_extract_company_info q)"
  "is_stage_call (Call_search_documents ci q)"
  "is_stage_call (Call_generate_answer q docs ci)"
  "\<not> is_stage_call (Client_create_run ca)"
  "\<not> is_stage_call (Client_end_run ea)"
  "\<not> is_stage_call (Log lvl msg kvs)"
  "\<not> is_stage_call (Call_execute d)"
  "\<not> is_stage_call (Call_llm_ainvoke ms kw)"
  by (simp_all add: is_stage_call_def)

lemma stage_calls_simps [simp]:
  "stage_calls [] = []"
  "stage_calls (ev # evs) = (if is_stage_call ev then ev # stage_calls evs else stage_calls evs)"
  by (simp_all add: stage_calls_def)

lemma end_calls_simps [simp]:
  "end_calls [] = []"
  "end_calls (Client_end_run ea # evs) = ea # end_calls evs"
  "end_calls (Client_create_run ca # evs) = end_calls evs"
  "end_calls (Log lvl msg kvs # evs) = end_calls evs"
  "end_calls (Call_extract_company_info q # evs) = end_calls evs"
  "end_calls (Call_search_documents ci q # evs) = end_calls evs"
  "end_calls (Call_generate_answer q docs ci # evs) = end_calls evs"
  "end_calls (Call_execute d # evs) = end_calls evs"
  "end_calls (Call_llm_ainvoke ms kw # evs) = end_calls evs"
  by (simp_all add: end_calls_def)

lemma create_calls_simps [simp]:
  "create_calls [] = []"
  "create_calls (Client_create_run ca # evs) = ca # create_calls evs"
  "create_calls (Client_end_run ea # evs) = create_calls evs"
  "create_calls (Log lvl msg kvs # evs) = create_calls evs"
  "create_calls (Call_extract_company_info q # evs) = create_calls evs"
  "create_calls (Call_search_documents ci q # evs) = create_calls evs"
  "create_calls (Call_generate_answer q docs ci # evs) = create_calls evs"
  "create_calls (Call_execute d # evs) = create_calls evs"
  "create_calls (Call_llm_ainvoke ms kw # evs) = create_calls evs"
  by (simp_all add: create_calls_def)

lemma company_extraction_fst [simp]:
  "fst (company_extraction cfg self q rid w) = extract_company_info self q"
  by (cases "extract_company_info self q")
     (simp_all add: company_extraction_def open_span_def py_try_apply)

lemma company_extraction_stage_calls [simp]:
  "stage_calls (events (snd (company_extraction cfg self q rid w))) =
     stage_calls (events w) @ [Call_extract_company_info q]"
  by (cases "extract_company_info self q")
     (simp_all add: company_extraction_def open_span_def py_try_apply)

lemma company_extraction_uuid [simp]:
  "uuid_count (snd (company_extraction cfg self q rid w)) =
     (if enable_tracing self then Suc (uuid_count w) else uuid_count w)"
  "uuid_draws (snd (company_extraction cfg self q rid w)) = uuid_draws w"
  by (cases "extract_company_info self q";
      simp add: company_extraction_def open_span_def py_try_apply)+

lemma company_extraction_create_calls [simp]:
  "create_calls (events (snd (company_extraction cfg self q rid w))) =
     create_calls (events w) @
       (if enable_tracing self \<and> active cfg
        then [Create_args ''company_extraction'' (PDict [(''question'', PStr q)])
                (project_name cfg)
                [(''run_id'', PStr (uuid_draws w (uuid_count w))),
                 (''tags'', PList [PStr ''chatbot'', PStr ''company-extraction'']),
                 (''parent_run_id'', opt_str rid)]]
        else [])"
  by (cases "extract_company_info self q")
     (simp_all add: company_extraction_def open_span_def py_try_apply)

lemma company_extraction_end_calls [simp]:
  "end_calls (events (snd (company_extraction cfg self q rid w))) =
     end_calls (events w) @
       (if enable_tracing self \<and> active cfg \<and> uuid_draws w (uuid_count w) \<noteq> []
        then [case extract_company_info self q of
                Inl e \<Rightarrow> End_args (uuid_draws w (uuid_count w)) None (Some e)
              | Inr company_info \<Rightarrow>
                  End_args (uuid_draws w (uuid_count w))
                    (Some (PDict [(''company_info'', company_info)])) None]
        else [])"
  by (cases "extract_company_info self q")
     (simp_all add: company_extraction_def open_span_def py_try_apply)


lemma document_search_fst [simp]:
  "fst (document_search cfg self q rid ci w) = search_documents self ci q"
  by (cases "search_documents self ci q")
     (simp_all add: document_search_def open_span_def py_try_apply)

lemma document_search_stage_calls [simp]:
  "stage_calls (events (snd (document_search cfg self q rid ci w))) =
     stage_calls (events w) @ [Call_search_documents ci q]"
  by (cases "search_documents self ci q")
     (simp_all add: document_search_def open_span_def py_try_apply)

lemma document_search_uuid [simp]:
  "uuid_count (snd (document_search cfg self q rid ci w)) =
     (if enable_tracing self then Suc (uuid_count w) else uuid_count w)"
  "uuid_draws (snd (document_search cfg self q rid ci w)) = uuid_draws w"
  by (cases "search_documents self ci q";
      simp add: document_search_def open_span_def py_try_apply)+

lemma document_search_create_calls [simp]:
  "create_calls (events (snd (document_search cfg self q rid ci w))) =
     create_calls (events w) @
       (if enable_tracing self \<and> active cfg
        then [Create_args ''document_search''
                (PDict [(''company_info'', ci), (''question'', PStr q)])
                (project_name cfg)
                [(''run_id'', PStr (uuid_draws w (uuid_count w))),
                 (''tags'', PList [PStr ''chatbot'', PStr ''document-search'']),
                 (''parent_run_id'', opt_str rid)]]
        else [])"
  by (cases "search_documents self ci q")
     (simp_all add: document_search_def open_span_def py_try_apply)

lemma document_search_end_calls [simp]:
  "end_calls (events (snd (document_search cfg self q rid ci w))) =
     end_calls (events w) @
       (if enable_tracing self \<and> active cfg \<and> uuid_draws w (uuid_count w) \<noteq> []
        then [case search_documents self ci q of
                Inl e \<Rightarrow> End_args (uuid_draws w (uuid_count w)) None (Some e)
              | Inr relevant_docs \<Rightarrow>
                  End_args (uuid_draws w (uuid_count w))
                    (Some (PDict [(''document_count'', PInt (int (length relevant_docs)))])) None]
        else [])"
  by (cases "search_documents self ci q")
     (simp_all add: document_search_def open_span_def py_try_apply)

lemma answer_generation_fst [simp]:
  "fst (answer_generation cfg self q rid ci docs w) = generate_answer self q docs ci"
  by (cases "generate_answer self q docs ci")
     (simp_all add: answer_generation_def open_span_def py_try_apply)

lemma answer_generation_stage_calls [simp]:
  "stage_calls (events (snd (answer_generation cfg self q rid ci docs w))) =
     stage_calls (events w) @ [Call_generate_answer q docs ci]"
  by (cases "generate_answer self q docs ci")
     (simp_all add: answer_generation_def open_span_def py_try_apply)

lemma answer_generation_uuid [simp]:
  "uuid_count (snd (answer_generation cfg self q rid ci docs w)) =
     (if enable_tracing self then Suc (uuid_count w) else uuid_count w)"
  "uuid_draws (snd (answer_generation cfg self q rid ci docs w)) = uuid_draws w"
  by (cases "generate_answer self q docs ci";
      simp add: answer_generation_def open_span_def py_try_apply)+

lemma answer_generation_create_calls [simp]:
  "create_calls (events (snd (answer_generation cfg self q rid ci docs w))) =
     create_calls (events w) @
       (if enable_tracing self \<and> active cfg
        then [Create_args ''answer_generation''
                (PDict [(''question'', PStr q),
                        (''document_count'', PInt (int (length docs))),
                        (''company_info'', ci)])
                (project_name cfg)
                [(''run_id'', PStr (uuid_draws w (uuid_count w))),
                 (''tags'', PList [PStr ''chatbot'', PStr ''answer-generation'']),
                 (''parent_run_id'', opt_str rid)]]
        else [])"
  by (cases "generate_answer self q docs ci")
     (simp_all add: answer_generation_def open_span_def py_try_apply)

lemma answer_generation_end_calls [simp]:
  "end_calls (events (snd (answer_generation cfg self q rid ci docs w))) =
     end_calls (events w) @
       (if enable_tracing self \<and> active cfg \<and> uuid_draws w (uuid_count w) \<noteq> []
        then [case generate_answer self q docs ci of
                Inl e \<Rightarrow> End_args (uuid_draws w (uuid_count w)) None (Some e)
              | Inr answer \<Rightarrow>
                  End_args (uuid_draws w (uuid_count w))
                    (Some (PDict [(''answer'', PStr answer)])) None]
        else [])"
  by (cases "generate_answer self q docs ci")
     (simp_all add: answer_generation_def open_span_def py_try_apply)

lemma py_bind_cases:
  "py_bind m f w = (case fst (m w) of Inl e \<Rightarrow> (Inl e, snd (m w)) | Inr x \<Rightarrow> f x (snd (m w)))"
  by (cases "m w"; cases "fst (m w)") (auto simp: py_bind_def)

lemma py_bind_company_extraction [simp]:
  "py_bind (company_extraction cfg self q rid) f w =
     (case extract_company_info self q of
        Inl e \<Rightarrow> (Inl e, snd (company_extraction cfg self q rid w))
      | Inr x \<Rightarrow> f x (snd (company_extraction cfg self q rid w)))"
  by (simp add: py_bind_cases [of "company_extraction cfg self q rid"])

lemma py_bind_document_search [simp]:
  "py_bind (document_search cfg self q rid ci) f w =
     (case search_documents self ci q of
        Inl e \<Rightarrow> (Inl e, snd (document_search cfg self q rid ci w))
      | Inr x \<Rightarrow> f x (snd (document_search cfg self q rid ci w)))"
  by (simp add: py_bind_cases [of "document_search cfg self q rid ci"])

lemma py_bind_answer_generation [simp]:
  "py_bind (answer_generation cfg self q rid ci docs) f w =
     (case generate_answer self q docs ci of
        Inl e \<Rightarrow> (Inl e, snd (answer_generation cfg self q rid ci docs w))
      | Inr x \<Rightarrow> f x (snd (answer_generation cfg self q rid ci docs w)))"
  by (simp add: py_bind_cases [of "answer_generation cfg self q rid ci docs"])

lemma ask_question_stages_fst [simp]:
  "fst (ask_question_stages cfg self q rid w) = bare_pipeline self q"
  by (simp add: ask_question_stages_def bare_pipeline_def split: sum.splits)

lemma ask_question_failed_fst [simp]:
  "fst (ask_question_failed cfg self rid e w) = Inl e"
  by (simp add: ask_question_failed_def)

lemma py_try_cases:
  "py_try m h w = (case fst (m w) of Inl e \<Rightarrow> h e (snd (m w)) | Inr x \<Rightarrow> (Inr x, snd (m w)))"
  by (cases "m w"; cases "fst (m w)") (auto simp: py_try_def)

lemma ask_question_fst:
  "fst (ask_question cfg self q h w) = bare_pipeline self q"
  by (cases "bare_pipeline self q") (simp_all add: ask_question_def py_try_cases)


lemma ask_question_failed_obs [simp]:
  "stage_calls (events (snd (ask_question_failed cfg self rid e w))) = stage_calls (events w)"
  "create_calls (events (snd (ask_question_failed cfg self rid e w))) = create_calls (events w)"
  "end_calls (events (snd (ask_question_failed cfg self rid e w))) =
     end_calls (events w) @
       (case rid of
          None \<Rightarrow> []
        | Some r \<Rightarrow> if enable_tracing self \<and> r \<noteq> [] \<and> active cfg
                    then [End_args r None (Some e)] else [])"
  "uuid_count (snd (ask_question_failed cfg self rid e w)) = uuid_count w"
  "uuid_draws (snd (ask_question_failed cfg self rid e w)) = uuid_draws w"
  by (cases rid; simp add: ask_question_failed_def)+

lemma ask_question_stages_stage_calls [simp]:
  "stage_calls (events (snd (ask_question_stages cfg self q rid w))) =
     stage_calls (events w) @
       (case extract_company_info self q of
          Inl e \<Rightarrow> [Call_extract_company_info q]
        | Inr ci \<Rightarrow>
            (case search_documents self ci q of
               Inl e \<Rightarrow> [Call_extract_company_info q, Call_search_documents ci q]
             | Inr docs \<Rightarrow>
                 [Call_extract_company_info q, Call_search_documents ci q,
                  Call_generate_answer q docs ci]))"
  by (cases rid) (simp_all add: ask_question_stages_def split: sum.splits)

lemma ask_question_stage_calls:
  "stage_calls (events (snd (ask_question cfg self q h w))) =
     stage_calls (events w) @
       (case extract_company_info self q of
          Inl e \<Rightarrow> [Call_extract_company_info q]
        | Inr ci \<Rightarrow>
            (case search_documents self ci q of
               Inl e \<Rightarrow> [Call_extract_company_info q, Call_search_documents ci q]
             | Inr docs \<Rightarrow>
                 [Call_extract_company_info q, Call_search_documents ci q,
                  Call_generate_answer q docs ci]))"
  by (cases "bare_pipeline self q") (simp_all add: ask_question_def py_try_cases)

lemma ask_question_stages_uuid [simp]:
  "uuid_draws (snd (ask_question_stages cfg self q rid w)) = uuid_draws w"
  by (cases "extract_company_info self q"; simp add: ask_question_stages_def;
      cases "search_documents self (projr (extract_company_info self q)) q"; simp;
      cases "generate_answer self q (projr (search_documents self (projr (extract_company_info self q)) q))
               (projr (extract_company_info self q))"; simp; cases rid; simp)

lemma ask_question_stages_create_calls:
  "create_calls (events (snd (ask_question_stages cfg self q rid w))) =
     create_calls (events w) @
       (if enable_tracing self \<and> active cfg
        then
          Create_args ''company_extraction'' (PDict [(''question'', PStr q)]) (project_name cfg)
            [(''run_id'', PStr (uuid_draws w (uuid_count w))),
             (''tags'', PList [PStr ''chatbot'', PStr ''company-extraction'']),
             (''parent_run_id'', opt_str rid)] #
          (case extract_company_info self q of
             Inl e \<Rightarrow> []
           | Inr ci \<Rightarrow>
               Create_args ''document_search''
                 (PDict [(''company_info'', ci), (''question'', PStr q)]) (project_name cfg)
                 [(''run_id'', PStr (uuid_draws w (Suc (uuid_count w)))),
                  (''tags'', PList [PStr ''chatbot'', PStr ''document-search'']),
                  (''parent_run_id'', opt_str rid)] #
               (case search_documents self ci q of
                  Inl e \<Rightarrow> []
                | Inr docs \<Rightarrow>
                    [Create_args ''answer_generation''
                       (PDict [(''question'', PStr q),
                               (''document_count'', PInt (int (length docs))),
                               (''company_info'', ci)])
                       (project_name cfg)
                       [(''run_id'', PStr (uuid_draws w (Suc (Suc (uuid_count w))))),
                        (''tags'', PList [PStr ''chatbot'', PStr ''answer-generation'']),
                        (''parent_run_id'', opt_str rid)]]))
        else [])"
proof (cases "extract_company_info self q")
  case Inl
  then show ?thesis by (simp add: ask_question_stages_def)
next
  case ex: (Inr ci)
  show ?thesis
  proof (cases "search_documents self ci q")
    case Inl
    with ex show ?thesis by (simp add: ask_question_stages_def)
  next
    case se: (Inr docs)
    show ?thesis
    proof (cases "generate_answer self q docs ci")
      case Inl
      with ex se show ?thesis by (simp add: ask_question_stages_def)
    next
      case (Inr a)
      with ex se show ?thesis by (cases rid) (simp_all add: ask_question_stages_def)
    qed
  qed
qed


lemma ask_question_stages_closed:
  "end_calls (events (snd (ask_question_stages cfg self q rid w))) =
     end_calls (events w) @
       (if enable_tracing self \<and> active cfg
        then
          (case extract_company_info self q of
             Inl e \<Rightarrow>
               (if uuid_draws w (uuid_count w) \<noteq> []
                then [End_args (uuid_draws w (uuid_count w)) None (Some e)] else [])
           | Inr ci \<Rightarrow>
               (if uuid_draws w (uuid_count w) \<noteq> []
                then [End_args (uuid_draws w (uuid_count w))
                        (Some (PDict [(''company_info'', ci)])) None] else []) @
               (case search_documents self ci q of
                  Inl e \<Rightarrow>
                    (if uuid_draws w (Suc (uuid_count w)) \<noteq> []
                     then [End_args (uuid_draws w (Suc (uuid_count w))) None (Some e)] else [])
                | Inr docs \<Rightarrow>
                    (if uuid_draws w (Suc (uuid_count w)) \<noteq> []
                     then [End_args (uuid_draws w (Suc (uuid_count w)))
                             (Some (PDict [(''document_count'', PInt (int (length docs)))])) None]
                     else []) @
                    (case generate_answer self q docs ci of
                       Inl e \<Rightarrow>
                         (if uuid_draws w (Suc (Suc (uuid_count w))) \<noteq> []
                          then [End_args (uuid_draws w (Suc (Suc (uuid_count w)))) None (Some e)]
                          else [])
                     | Inr a \<Rightarrow>
                         (if uuid_draws w (Suc (Suc (uuid_count w))) \<noteq> []
                          then [End_args (uuid_draws w (Suc (Suc (uuid_count w))))
                                  (Some (PDict [(''answer'', PStr a)])) None]
                          else []) @
                         (case rid of
                            None \<Rightarrow> []
                          | Some r \<Rightarrow>
                              if r \<noteq> [] then [End_args r (Some (exchange q a ci docs)) None]
                              else []))))
        else [])"
proof (cases "extract_company_info self q")
  case Inl
  then show ?thesis by (simp add: ask_question_stages_def)
next
  case ex: (Inr ci)
  show ?thesis
  proof (cases "search_documents self ci q")
    case Inl
    with ex show ?thesis by (simp add: ask_question_stages_def)
  next
    case se: (Inr docs)
    show ?thesis
    proof (cases "generate_answer self q docs ci")
      case Inl
      with ex se show ?thesis by (simp add: ask_question_stages_def)
    next
      case (Inr a)
      with ex se show ?thesis by (cases rid) (simp_all add: ask_question_stages_def)
    qed
  qed
qed

lemma ask_question_closed:
  "end_calls (events (snd (ask_question cfg self q h w))) =
     end_calls (events w) @
       (if enable_tracing self \<and> active cfg
        then
          (case extract_company_info self q of
             Inl e \<Rightarrow>
               (if uuid_draws w (Suc (uuid_count w)) \<noteq> []
                then [End_args (uuid_draws w (Suc (uuid_count w))) None (Some e)] else []) @
               (if uuid_draws w (uuid_count w) \<noteq> []
                then [End_args (uuid_draws w (uuid_count w)) None (Some e)] else [])
           | Inr ci \<Rightarrow>
               (if uuid_draws w (Suc (uuid_count w)) \<noteq> []
                then [End_args (uuid_draws w (Suc (uuid_count w)))
                        (Some (PDict [(''company_info'', ci)])) None] else []) @
               (case search_documents self ci q of
                  Inl e \<Rightarrow>
                    (if uuid_draws w (Suc (Suc (uuid_count w))) \<noteq> []
                     then [End_args (uuid_draws w (Suc (Suc (uuid_count w)))) None (Some e)]
                     else []) @
                    (if uuid_draws w (uuid_count w) \<noteq> []
                     then [End_args (uuid_draws w (uuid_count w)) None (Some e)] else [])
                | Inr docs \<Rightarrow>
                    (if uuid_draws w (Suc (Suc (uuid_count w))) \<noteq> []
                     then [End_args (uuid_draws w (Suc (Suc (uuid_count w))))
                             (Some (PDict [(''document_count'', PInt (int (length docs)))])) None]
                     else []) @
                    (case generate_answer self q docs ci of
                       Inl e \<Rightarrow>
                         (if uuid_draws w (Suc (Suc (Suc (uuid_count w)))) \<noteq> []
                          then [End_args (uuid_draws w (Suc (Suc (Suc (uuid_count w))))) None
                                  (Some e)]
                          else []) @
                         (if uuid_draws w (uuid_count w) \<noteq> []
                          then [End_args (uuid_draws w (uuid_count w)) None (Some e)] else [])
                     | Inr a \<Rightarrow>
                         (if uuid_draws w (Suc (Suc (Suc (uuid_count w)))) \<noteq> []
                          then [End_args (uuid_draws w (Suc (Suc (Suc (uuid_count w)))))
                                  (Some (PDict [(''answer'', PStr a)])) None]
                          else []) @
                         (if uuid_draws w (uuid_count w) \<noteq> []
                          then [End_args (uuid_draws w (uuid_count w))
                                  (Some (exchange q a ci docs)) None]
                          else []))))
        else [])"
proof (cases "extract_company_info self q")
  case Inl
  then show ?thesis
    by (simp add: ask_question_def py_try_cases bare_pipeline_def ask_question_stages_closed)
next
  case ex: (Inr ci)
  show ?thesis
  proof (cases "search_documents self ci q")
    case Inl
    with ex show ?thesis
      by (simp add: ask_question_def py_try_cases bare_pipeline_def ask_question_stages_closed)
  next
    case se: (Inr docs)
    show ?thesis
    proof (cases "generate_answer self q docs ci")
      case Inl
      with ex se show ?thesis
        by (simp add: ask_question_def py_try_cases bare_pipeline_def ask_question_stages_closed)
    next
      case (Inr a)
      with ex se show ?thesis
        by (simp add: ask_question_def py_try_cases bare_pipeline_def ask_question_stages_closed)
    qed
  qed
qed

lemma ask_question_opened:
  "create_calls (events (snd (ask_question cfg self q h w))) =
     create_calls (events w) @
       (if enable_tracing self \<and> active cfg
        then
          Create_args (chatbot_name self @ ''_query'')
            (PDict [(''question'', PStr q),
                    (''conversation_history'',
                       (case h of None \<Rightarrow> PList [] | Some l \<Rightarrow> if l \<noteq> [] then PList l else PList []))])
            (project_name cfg)
            [(''run_id'', PStr (uuid_draws w (uuid_count w))),
             (''tags'', PList [PStr ''chatbot'', PStr ''qa'', PStr ''query''])] #
          Create_args ''company_extraction'' (PDict [(''question'', PStr q)]) (project_name cfg)
            [(''run_id'', PStr (uuid_draws w (Suc (uuid_count w)))),
             (''tags'', PList [PStr ''chatbot'', PStr ''company-extraction'']),
             (''parent_run_id'', PStr (uuid_draws w (uuid_count w)))] #
          (case extract_company_info self q of
             Inl e \<Rightarrow> []
           | Inr ci \<Rightarrow>
               Create_args ''document_search''
                 (PDict [(''company_info'', ci), (''question'', PStr q)]) (project_name cfg)
                 [(''run_id'', PStr (uuid_draws w (Suc (Suc (uuid_count w))))),
                  (''tags'', PList [PStr ''chatbot'', PStr ''document-search'']),
                  (''parent_run_id'', PStr (uuid_draws w (uuid_count w)))] #
               (case search_documents self ci q of
                  Inl e \<Rightarrow> []
                | Inr docs \<Rightarrow>
                    [Create_args ''answer_generation''
                       (PDict [(''question'', PStr q),
                               (''document_count'', PInt (int (length docs))),
                               (''company_info'', ci)])
                       (project_name cfg)
                       [(''run_id'', PStr (uuid_draws w (Suc (Suc (Suc (uuid_count w)))))),
                        (''tags'', PList [PStr ''chatbot'', PStr ''answer-generation'']),
                        (''parent_run_id'', PStr (uuid_draws w (uuid_count w)))]]))
        else [])"
  by (cases "bare_pipeline self q")
     (simp_all add: ask_question_def py_try_cases ask_question_stages_create_calls opt_str_def
        split: sum.splits)


lemma bare_pipeline_Inr:
  assumes "bare_pipeline self q = Inr x"
  obtains ci docs a where "extract_company_info self q = Inr ci"
    and "search_documents self ci q = Inr docs"
    and "generate_answer self q docs ci = Inr a"
    and "x = exchange q a ci docs"
  using assms by (auto simp: bare_pipeline_def split: sum.splits)

lemma py_bind_call_execute_impl [simp]:
  "py_bind (call_execute_impl self d) f w =
     (case execute_impl self d of
        Inl e \<Rightarrow> (Inl e, w\<lparr>events := events w @ [Call_execute d]\<rparr>)
      | Inr x \<Rightarrow> f x (w\<lparr>events := events w @ [Call_execute d]\<rparr>))"
  by (simp add: py_bind_def call_execute_impl_def split: sum.splits)

lemma py_bind_call_llm_ainvoke [simp]:
  "py_bind (call_llm_ainvoke self ms kw) f w =
     (case llm_ainvoke self ms kw of
        Inl e \<Rightarrow> (Inl e, w\<lparr>events := events w @ [Call_llm_ainvoke ms kw]\<rparr>)
      | Inr x \<Rightarrow> f x (w\<lparr>events := events w @ [Call_llm_ainvoke ms kw]\<rparr>))"
  by (simp add: py_bind_def call_llm_ainvoke_def split: sum.splits)

lemma py_bind_py_result [simp]:
  "py_bind (py_result r) f w = (case r of Inl e \<Rightarrow> (Inl e, w) | Inr x \<Rightarrow> f x w)"
  by (simp add: py_bind_def py_result_def split: sum.splits)

lemma execute_run_fst [simp]:
  "fst (execute_run cfg self d rid w) = execute_impl self d"
  by (cases "execute_impl self d") (simp_all add: execute_run_def)

lemma execute_failed_fst [simp]: "fst (execute_failed cfg self rid e w) = Inl e"
  by (simp add: execute_failed_def)

lemma call_llm_run_fst [simp]:
  "fst (call_llm_run cfg self ms kw rid w) =
     (case llm_ainvoke self ms kw of Inl e \<Rightarrow> Inl e | Inr r \<Rightarrow> Inr (getattr_content r))"
  by (cases "llm_ainvoke self ms kw") (simp_all add: call_llm_run_def)

lemma call_llm_failed_fst [simp]: "fst (call_llm_failed cfg self rid e w) = Inl e"
  by (simp add: call_llm_failed_def)


text \<open>
  The outcome of \<^verbatim>\<open>_call_llm\<close>: with tracing on, the comprehension over the messages
  decides first.
\<close>

lemma call_llm_fst:
  "fst (call_llm cfg self messages kwargs w) =
     (if agent_enable_tracing self
      then (case message_contents messages of
              Inl e \<Rightarrow> Inl e
            | Inr contents \<Rightarrow>
                (case llm_ainvoke self messages kwargs of
                   Inl e \<Rightarrow> Inl e
                 | Inr response \<Rightarrow> Inr (getattr_content response)))
      else (case llm_ainvoke self messages kwargs of
              Inl e \<Rightarrow> Inl e
            | Inr response \<Rightarrow> Inr (getattr_content response)))"
  by (cases "message_contents messages"; cases "llm_ainvoke self messages kwargs")
     (simp_all add: call_llm_def py_try_cases)

subsection \<open>Sessions\<close>

lemma end_conversation_session_fst [simp]:
  "fst (end_conversation_session cfg self sid summary w) = Inr ()"
  by (simp add: end_conversation_session_def py_when_def log_def)

lemma end_conversation_session_untraced:
  "\<not> enable_tracing self \<or> \<not> active cfg \<Longrightarrow>
   end_conversation_session cfg self sid summary w =
     (Inr (), w\<lparr>events := events w @
                  [Log LInfo ''Conversation session ended'' [(''session_id'', PStr sid)]]\<rparr>)"
  by (rule end_run_cases [of cfg sid
        "Some (PDict ((''session_ended'', PBool True) #
           (case summary of None \<Rightarrow> [] | Some s \<Rightarrow> if s \<noteq> [] then [(''summary'', PStr s)] else [])))"
        None w])
     (auto simp: end_conversation_session_def py_when_def log_def)

lemma start_conversation_session_fst:
  "fst (start_conversation_session cfg self sid w) =
     Inr (case sid of
            None \<Rightarrow> uuid_draws w (uuid_count w)
          | Some s \<Rightarrow> if s = [] then uuid_draws w (uuid_count w) else s)"
  by (cases sid) (simp_all add: start_conversation_session_def py_when_def)

lemma start_conversation_session_uuid:
  "uuid_draws (snd (start_conversation_session cfg self sid w)) = uuid_draws w"
  "uuid_count (snd (start_conversation_session cfg self None w)) = Suc (uuid_count w)"
  by (cases sid; simp add: start_conversation_session_def py_when_def)+

lemma start_sessions_run:
  "fst (start_sessions cfg self n w) =
     Inr (map (uuid_draws w) [uuid_count w ..< uuid_count w + n])"
proof (induction n arbitrary: w)
  case 0
  show ?case by simp
next
  case (Suc n)
  have "[uuid_count w ..< uuid_count w + Suc n] =
          uuid_count w # [Suc (uuid_count w) ..< Suc (uuid_count w) + n]"
    by (simp add: upt_conv_Cons)
  with Suc [of "snd (start_conversation_session cfg self None w)"] show ?case
    by (simp add: py_bind_cases [of "start_conversation_session cfg self None"]
          py_bind_cases [of "start_sessions cfg self n"]
          start_conversation_session_fst start_conversation_session_uuid del: upt_Suc)
qed

subsection \<open>The test environment\<close>

lemma example_uuid_nonempty: "example_uuid n \<noteq> []"
  by (simp add: example_uuid_def)

lemma example_uuid_inj: "inj example_uuid"
  by (simp add: inj_def example_uuid_def)

lemma test_world_simps [simp]:
  "uuid_draws test_world = example_uuid" "uuid_count test_world = 0"
  "events test_world = []" "backend test_world = ()"
  by (simp_all add: test_world_def)

lemma traced_config_active [simp]: "active traced_config" "enabled traced_config"
  "client traced_config = Some raising_client" "\<not> active disabled_config"
  by (simp_all add: active_def traced_config_def disabled_config_def)

lemma test_chatbot_simps [simp]:
  "enable_tracing test_chatbot"
  "chatbot_name test_chatbot = ''EnhancedQAChatbot''"
  "extract_company_info test_chatbot q = Inr (PDict [(''name'', PStr ''Test Corp'')])"
  "search_documents test_chatbot ci q = Inr [PStr ''doc1'', PStr ''doc2'']"
  "generate_answer test_chatbot q docs ci = Inr ''Test answer''"
  by (simp_all add: test_chatbot_def EnhancedQAChatbot_def is_enabled_def traced_config_def)

lemma extraction_fails_simps [simp]:
  "enable_tracing extraction_fails"
  "extract_company_info extraction_fails q = Inl lookup_failure"
  by (simp_all add: extraction_fails_def)

lemma end_run_unreachable:
  "end_run traced_config run_id outputs error w =
     (Inr (),
      w\<lparr>backend := (),
        events := events w @
          [Client_end_run (End_args run_id outputs error),
           Log LError ''Failed to end LangSmith run'' [(''error'', PStr ''backend unreachable'')]]\<rparr>)"
  by (simp add: end_run_def traced_config_def raising_client_def unreachable_def py_try_def
        call_client_end_run_def log_def)

section \<open>Claims\<close>

text \<open>
  C1: if one of the three pipeline stages raises inside \<^verbatim>\<open>ask_question\<close>, the later
  stages are not invoked, no exchange record is returned, and the caller gets the very
  exception the stage raised (same type, same message), whatever the tracing
  configuration and whatever the client does.
\<close>

theorem ask_question_stage_failure:
  "(extract_company_info self q = Inl e \<longrightarrow>
      fst (ask_question cfg self q h w) = Inl e \<and>
      stage_calls_during (ask_question cfg self q h) w = [Call_extract_company_info q]) \<and>
   (extract_company_info self q = Inr ci \<and> search_documents self ci q = Inl e \<longrightarrow>
      fst (ask_question cfg self q h w) = Inl e \<and>
      stage_calls_during (ask_question cfg self q h) w =
        [Call_extract_company_info q, Call_search_documents ci q]) \<and>
   (extract_company_info self q = Inr ci \<and> search_documents self ci q = Inr docs \<and>
    generate_answer self q docs ci = Inl e \<longrightarrow>
      fst (ask_question cfg self q h w) = Inl e \<and>
      stage_calls_during (ask_question cfg self q h) w =
        [Call_extract_company_info q, Call_search_documents ci q,
         Call_generate_answer q docs ci])"
  by (simp add: ask_question_fst bare_pipeline_def stage_calls_during_def ask_question_stage_calls)

theorem ask_question_stage_failure_witness:
  "(extract_company_info extraction_fails ''What is the revenue?'' = Inl lookup_failure \<and>
    fst (ask_question traced_config extraction_fails ''What is the revenue?'' None test_world) =
      Inl lookup_failure \<and>
    stage_calls_during (ask_question traced_config extraction_fails ''What is the revenue?'' None)
      test_world = [Call_extract_company_info ''What is the revenue?'']) \<and>
   (extract_company_info search_fails ''What is the revenue?'' =
      Inr (PDict [(''name'', PStr ''Test Corp'')]) \<and>
    search_documents search_fails (PDict [(''name'', PStr ''Test Corp'')])
      ''What is the revenue?'' = Inl lookup_failure \<and>
    fst (ask_question traced_config search_fails ''What is the revenue?'' None test_world) =
      Inl lookup_failure \<and>
    stage_calls_during (ask_question traced_config search_fails ''What is the revenue?'' None)
      test_world =
      [Call_extract_company_info ''What is the revenue?'',
       Call_search_documents (PDict [(''name'', PStr ''Test Corp'')]) ''What is the revenue?'']) \<and>
   (extract_company_info generation_fails ''What is the revenue?'' =
      Inr (PDict [(''name'', PStr ''Test Corp'')]) \<and>
    search_documents generation_fails (PDict [(''name'', PStr ''Test Corp'')])
      ''What is the revenue?'' = Inr [PStr ''doc1'', PStr ''doc2''] \<and>
    generate_answer generation_fails ''What is the revenue?'' [PStr ''doc1'', PStr ''doc2'']
      (PDict [(''name'', PStr ''Test Corp'')]) = Inl lookup_failure \<and>
    fst (ask_question traced_config generation_fails ''What is the revenue?'' None test_world) =
      Inl lookup_failure \<and>
    stage_calls_during (ask_question traced_config generation_fails ''What is the revenue?'' None)
      test_world =
      [Call_extract_company_info ''What is the revenue?'',
       Call_search_documents (PDict [(''name'', PStr ''Test Corp'')]) ''What is the revenue?'',
       Call_generate_answer ''What is the revenue?'' [PStr ''doc1'', PStr ''doc2'']
         (PDict [(''name'', PStr ''Test Corp'')])])"
proof -
  have h1: "extract_company_info extraction_fails ''What is the revenue?'' = Inl lookup_failure"
    by (simp add: extraction_fails_def)
  have h2: "extract_company_info search_fails ''What is the revenue?'' =
              Inr (PDict [(''name'', PStr ''Test Corp'')])"
           "search_documents search_fails (PDict [(''name'', PStr ''Test Corp'')])
              ''What is the revenue?'' = Inl lookup_failure"
    by (simp_all add: search_fails_def test_chatbot_def EnhancedQAChatbot_def)
  have h3: "extract_company_info generation_fails ''What is the revenue?'' =
              Inr (PDict [(''name'', PStr ''Test Corp'')])"
           "search_documents generation_fails (PDict [(''name'', PStr ''Test Corp'')])
              ''What is the revenue?'' = Inr [PStr ''doc1'', PStr ''doc2'']"
           "generate_answer generation_fails ''What is the revenue?'' [PStr ''doc1'', PStr ''doc2'']
              (PDict [(''name'', PStr ''Test Corp'')]) = Inl lookup_failure"
    by (simp_all add: generation_fails_def test_chatbot_def EnhancedQAChatbot_def)
  show ?thesis
    using h1 h2 h3
      ask_question_stage_failure [where self = extraction_fails and q = "''What is the revenue?''"
        and e = lookup_failure and cfg = traced_config and h = None and w = test_world]
      ask_question_stage_failure [where self = search_fails and q = "''What is the revenue?''"
        and e = lookup_failure and cfg = traced_config and h = None and w = test_world
        and ci = "PDict [(''name'', PStr ''Test Corp'')]"]
      ask_question_stage_failure [where self = generation_fails and q = "''What is the revenue?''"
        and e = lookup_failure and cfg = traced_config and h = None and w = test_world
        and ci = "PDict [(''name'', PStr ''Test Corp'')]"
        and docs = "[PStr ''doc1'', PStr ''doc2'']"]
    by simp
qed

text \<open>
  C2: when the three collaborators succeed, \<^verbatim>\<open>ask_question\<close> returns the record with
  exactly the keys question, answer, company\_info, sources and document\_count, holding
  the input question and the collaborators' results as they are, and the number of
  sources. The scenario of the test suite is the witness.
\<close>

theorem ask_question_exchange:
  assumes "extract_company_info self q = Inr ci"
    and "search_documents self ci q = Inr docs"
    and "generate_answer self q docs ci = Inr a"
  shows "fst (ask_question cfg self q h w) =
           Inr (PDict [(''question'', PStr q),
                       (''answer'', PStr a),
                       (''company_info'', ci),
                       (''sources'', PList docs),
                       (''document_count'', PInt (int (length docs)))])"
  using assms by (simp add: ask_question_fst bare_pipeline_def exchange_def)

theorem ask_question_exchange_witness:
  "extract_company_info test_chatbot ''What is the revenue?'' =
     Inr (PDict [(''name'', PStr ''Test Corp'')]) \<and>
   search_documents test_chatbot (PDict [(''name'', PStr ''Test Corp'')]) ''What is the revenue?'' =
     Inr [PStr ''doc1'', PStr ''doc2''] \<and>
   generate_answer test_chatbot ''What is the revenue?'' [PStr ''doc1'', PStr ''doc2'']
     (PDict [(''name'', PStr ''Test Corp'')]) = Inr ''Test answer'' \<and>
   fst (ask_question traced_config test_chatbot ''What is the revenue?'' None test_world) =
     Inr (PDict [(''question'', PStr ''What is the revenue?''),
                 (''answer'', PStr ''Test answer''),
                 (''company_info'', PDict [(''name'', PStr ''Test Corp'')]),
                 (''sources'', PList [PStr ''doc1'', PStr ''doc2'']),
                 (''document_count'', PInt 2)])"
  using ask_question_exchange [of test_chatbot "''What is the revenue?''"
      "PDict [(''name'', PStr ''Test Corp'')]" "[PStr ''doc1'', PStr ''doc2'']" "''Test answer''"
      traced_config None test_world]
  by simp

text \<open>
  C3: in every record \<^verbatim>\<open>ask_question\<close> returns, \<^verbatim>\<open>sources\<close> is the list the document
  searcher returned and \<^verbatim>\<open>document_count\<close> is its length; the searcher is invoked once
  in the run, so both fields come from that one result.
\<close>

theorem document_count_is_length_of_sources:
  assumes "fst (ask_question cfg self q h w) = Inr x"
  shows "\<exists>ci docs.
           extract_company_info self q = Inr ci \<and>
           search_documents self ci q = Inr docs \<and>
           field x ''sources'' = Some (PList docs) \<and>
           field x ''document_count'' = Some (PInt (int (length docs))) \<and>
           length (filter (\<lambda>ev. ev = Call_search_documents ci q)
                     (stage_calls_during (ask_question cfg self q h) w)) = 1"
proof -
  from assms have "bare_pipeline self q = Inr x" by (simp add: ask_question_fst)
  then obtain ci docs a where st: "extract_company_info self q = Inr ci"
    "search_documents self ci q = Inr docs" "generate_answer self q docs ci = Inr a"
    and x: "x = exchange q a ci docs"
    by (rule bare_pipeline_Inr)
  from st x show ?thesis
    by (simp add: field_def exchange_def stage_calls_during_def ask_question_stage_calls)
qed

theorem document_count_is_length_of_sources_witness:
  "fst (ask_question traced_config test_chatbot ''What is the revenue?'' None test_world) =
     Inr (exchange ''What is the revenue?'' ''Test answer'' (PDict [(''name'', PStr ''Test Corp'')])
            [PStr ''doc1'', PStr ''doc2'']) \<and>
   (\<exists>ci docs.
      extract_company_info test_chatbot ''What is the revenue?'' = Inr ci \<and>
      search_documents test_chatbot ci ''What is the revenue?'' = Inr docs \<and>
      field (exchange ''What is the revenue?'' ''Test answer''
               (PDict [(''name'', PStr ''Test Corp'')]) [PStr ''doc1'', PStr ''doc2''])
        ''sources'' = Some (PList docs) \<and>
      field (exchange ''What is the revenue?'' ''Test answer''
               (PDict [(''name'', PStr ''Test Corp'')]) [PStr ''doc1'', PStr ''doc2''])
        ''document_count'' = Some (PInt (int (length docs))) \<and>
      length (filter (\<lambda>ev. ev = Call_search_documents ci ''What is the revenue?'')
                (stage_calls_during
                   (ask_question traced_config test_chatbot ''What is the revenue?'' None)
                   test_world)) = 1)"
proof -
  have ok:
    "fst (ask_question traced_config test_chatbot ''What is the revenue?'' None test_world) =
       Inr (exchange ''What is the revenue?'' ''Test answer''
              (PDict [(''name'', PStr ''Test Corp'')]) [PStr ''doc1'', PStr ''doc2''])"
    by (simp add: ask_question_fst bare_pipeline_def)
  from ok document_count_is_length_of_sources [OF ok] show ?thesis by blast
qed

text \<open>
  C4: whatever the tracing flag of the agent, the configuration, the client and the world,
  \<^verbatim>\<open>execute(input)\<close> returns the value \<^verbatim>\<open>_execute(input)\<close> returns and raises the
  exception it raises.
\<close>

theorem execute_is_execute_impl:
  "fst (execute cfg self input_data w) = execute_impl self input_data"
  by (cases "execute_impl self input_data") (simp_all add: execute_def py_try_cases)

theorem execute_is_execute_impl_witness:
  "fst (execute traced_config test_agent [(''test'', PStr ''data'')] test_world) =
     Inr [(''result'', PStr ''test''), (''input'', PDict [(''test'', PStr ''data'')])] \<and>
   fst (execute disabled_config (test_agent\<lparr>agent_enable_tracing := False\<rparr>)
          [(''test'', PStr ''data'')] test_world) =
     Inr [(''result'', PStr ''test''), (''input'', PDict [(''test'', PStr ''data'')])] \<and>
   fst (execute traced_config failing_agent [(''test'', PStr ''data'')] test_world) =
     Inl (Exn ''ValueError'' ''bad input'')"
  using execute_is_execute_impl [of traced_config test_agent "[(''test'', PStr ''data'')]" test_world]
    execute_is_execute_impl [of disabled_config "test_agent\<lparr>agent_enable_tracing := False\<rparr>"
      "[(''test'', PStr ''data'')]" test_world]
    execute_is_execute_impl [of traced_config failing_agent "[(''test'', PStr ''data'')]" test_world]
  by (simp add: test_agent_def failing_agent_def)

text \<open>
  C5: \<^verbatim>\<open>create_run\<close> and \<^verbatim>\<open>end_run\<close> never raise. When the configuration is disabled
  or has no client they return (\<^verbatim>\<open>create_run\<close> with \<^verbatim>\<open>None\<close>) and leave the world as
  it is. When the client call raises, the exception is logged and swallowed and
  \<^verbatim>\<open>create_run\<close> returns \<^verbatim>\<open>None\<close>. Whatever the client does, \<^verbatim>\<open>ask_question\<close>
  returns the exchange when the three collaborators succeed.
\<close>

theorem sink_never_raises:
  "\<not> isl (fst (create_run cfg name inputs kwargs w)) \<and>
   fst (end_run cfg run_id outputs error w) = Inr () \<and>
   (\<not> enabled cfg \<or> client cfg = None \<longrightarrow>
      create_run cfg name inputs kwargs w = (Inr PNone, w) \<and>
      end_run cfg run_id outputs error w = (Inr (), w)) \<and>
   (enabled cfg \<and> client cfg = Some cl \<and>
    client_create_run cl (Create_args name inputs (project_name cfg) kwargs) (backend w) =
      (Inl e, b') \<longrightarrow>
      create_run cfg name inputs kwargs w =
        (Inr PNone,
         w\<lparr>backend := b',
           events := events w @
             [Client_create_run (Create_args name inputs (project_name cfg) kwargs),
              Log LError ''Failed to create LangSmith run'' [(''error'', PStr (exn_str e))]]\<rparr>)) \<and>
   (enabled cfg \<and> client cfg = Some cl \<and>
    client_end_run cl (End_args run_id outputs error) (backend w) = (Inl e, b') \<longrightarrow>
      end_run cfg run_id outputs error w =
        (Inr (),
         w\<lparr>backend := b',
           events := events w @
             [Client_end_run (End_args run_id outputs error),
              Log LError ''Failed to end LangSmith run'' [(''error'', PStr (exn_str e))]]\<rparr>)) \<and>
   (extract_company_info self q = Inr ci \<and> search_documents self ci q = Inr docs \<and>
    generate_answer self q docs ci = Inr a \<longrightarrow>
      fst (ask_question cfg self q h w) = Inr (exchange q a ci docs))"
proof -
  have inactive: "create_run cfg name inputs kwargs w = (Inr PNone, w) \<and>
      end_run cfg run_id outputs error w = (Inr (), w)"
    if "\<not> enabled cfg \<or> client cfg = None"
    using that by (auto simp: create_run_def end_run_def)
  have cr: "create_run cfg name inputs kwargs w =
        (Inr PNone,
         w\<lparr>backend := b',
           events := events w @
             [Client_create_run (Create_args name inputs (project_name cfg) kwargs),
              Log LError ''Failed to create LangSmith run'' [(''error'', PStr (exn_str e))]]\<rparr>)"
    if "enabled cfg" "client cfg = Some cl"
      "client_create_run cl (Create_args name inputs (project_name cfg) kwargs) (backend w) =
        (Inl e, b')"
    using that
    by (simp add: create_run_def py_try_def call_client_create_run_def py_bind_def log_def
          py_return_def)
  have er: "end_run cfg run_id outputs error w =
        (Inr (),
         w\<lparr>backend := b',
           events := events w @
             [Client_end_run (End_args run_id outputs error),
              Log LError ''Failed to end LangSmith run'' [(''error'', PStr (exn_str e))]]\<rparr>)"
    if "enabled cfg" "client cfg = Some cl"
      "client_end_run cl (End_args run_id outputs error) (backend w) = (Inl e, b')"
    using that
    by (simp add: end_run_def py_try_def call_client_end_run_def log_def)
  have pipe: "fst (ask_question cfg self q h w) = Inr (exchange q a ci docs)"
    if "extract_company_info self q = Inr ci" "search_documents self ci q = Inr docs"
      "generate_answer self q docs ci = Inr a"
    using that by (simp add: ask_question_fst bare_pipeline_def)
  show ?thesis
    using inactive cr er pipe by simp
qed

theorem sink_never_raises_witness:
  "client disabled_config = None \<and>
   create_run disabled_config ''test'' (PDict [(''test'', PStr ''data'')]) [] test_world =
     (Inr PNone, test_world) \<and>
   end_run disabled_config ''test-run-id'' None None test_world = (Inr (), test_world) \<and>
   enabled traced_config \<and> client traced_config = Some raising_client \<and>
   client_create_run raising_client
     (Create_args ''test'' (PDict [(''test'', PStr ''data'')]) (project_name traced_config) [])
     (backend test_world) = (Inl unreachable, ()) \<and>
   client_end_run raising_client (End_args ''test-run-id'' None None) (backend test_world) =
     (Inl unreachable, ()) \<and>
   fst (create_run traced_config ''test'' (PDict [(''test'', PStr ''data'')]) [] test_world) =
     Inr PNone \<and>
   fst (end_run traced_config ''test-run-id'' None None test_world) = Inr () \<and>
   events (snd (create_run traced_config ''test'' (PDict [(''test'', PStr ''data'')]) []
                  test_world)) =
     [Client_create_run
        (Create_args ''test'' (PDict [(''test'', PStr ''data'')]) ''test-project'' []),
      Log LError ''Failed to create LangSmith run'' [(''error'', PStr ''backend unreachable'')]] \<and>
   fst (ask_question traced_config test_chatbot ''What is the revenue?'' None test_world) =
     Inr (exchange ''What is the revenue?'' ''Test answer'' (PDict [(''name'', PStr ''Test Corp'')])
            [PStr ''doc1'', PStr ''doc2''])"
proof -
  have c: "client_create_run raising_client
     (Create_args ''test'' (PDict [(''test'', PStr ''data'')]) (project_name traced_config) [])
     (backend test_world) = (Inl unreachable, ())"
    and e: "client_end_run raising_client (End_args ''test-run-id'' None None)
      (backend test_world) = (Inl unreachable, ())"
    by (simp_all add: raising_client_def)
  show ?thesis
    using c e
      sink_never_raises [where cfg = disabled_config and name = "''test''"
        and inputs = "PDict [(''test'', PStr ''data'')]" and kwargs = "[]" and w = test_world
        and run_id = "''test-run-id''" and outputs = None and error = None]
      sink_never_raises [where cfg = traced_config and name = "''test''"
        and inputs = "PDict [(''test'', PStr ''data'')]" and kwargs = "[]" and w = test_world
        and run_id = "''test-run-id''" and outputs = None and error = None
        and cl = raising_client and e = unreachable and b' = "()"
        and self = test_chatbot and q = "''What is the revenue?''"
        and ci = "PDict [(''name'', PStr ''Test Corp'')]"
        and docs = "[PStr ''doc1'', PStr ''doc2'']" and a = "''Test answer''" and h = None]
    by (simp add: disabled_config_def unreachable_def traced_config_def)
qed

text \<open>
  C6: during \<^verbatim>\<open>ask_question\<close>, provided the drawn uuid strings are non-empty (as those of
  \<^verbatim>\<open>uuid4\<close> are), the spans closed are the spans opened, id for id; with pairwise distinct
  draws no id is closed twice; when an exchange is returned every span is closed with
  outputs and no error; when a stage raises \<open>e\<close> under active tracing, the last span opened
  (the failing child) and then the root span are closed with \<open>e\<close>, after the earlier
  children were closed with outputs.
\<close>

theorem ask_question_spans_closed:
  assumes ne: "\<forall>n. uuid_draws w n \<noteq> []"
  shows
    "mset (map (\<lambda>a. PStr (er_run_id a)) (closed_during (ask_question cfg self q h) w)) =
       mset (map span_id (opened_during (ask_question cfg self q h) w)) \<and>
     (inj (uuid_draws w) \<longrightarrow>
        distinct (map er_run_id (closed_during (ask_question cfg self q h) w))) \<and>
     (\<forall>x. fst (ask_question cfg self q h w) = Inr x \<longrightarrow>
        list_all closed_with_outputs (closed_during (ask_question cfg self q h) w)) \<and>
     (\<forall>e. fst (ask_question cfg self q h w) = Inl e \<and> enable_tracing self \<and> active cfg \<longrightarrow>
        2 \<le> length (closed_during (ask_question cfg self q h) w) \<and>
        closed_with_error e (last (closed_during (ask_question cfg self q h) w)) \<and>
        PStr (er_run_id (last (closed_during (ask_question cfg self q h) w))) =
          span_id (hd (opened_during (ask_question cfg self q h) w)) \<and>
        closed_with_error e (last (butlast (closed_during (ask_question cfg self q h) w))) \<and>
        PStr (er_run_id (last (butlast (closed_during (ask_question cfg self q h) w)))) =
          span_id (last (opened_during (ask_question cfg self q h) w)) \<and>
        list_all closed_with_outputs
          (butlast (butlast (closed_during (ask_question cfg self q h) w))))"
proof (cases "extract_company_info self q")
  case Inl
  with ne show ?thesis
    by (simp add: closed_during_def opened_during_def ask_question_closed ask_question_opened
          ask_question_fst bare_pipeline_def span_id_def closed_with_outputs_def
          closed_with_error_def inj_eq)
next
  case ex: (Inr ci)
  show ?thesis
  proof (cases "search_documents self ci q")
    case Inl
    with ne ex show ?thesis
      by (simp add: closed_during_def opened_during_def ask_question_closed ask_question_opened
          ask_question_fst bare_pipeline_def span_id_def closed_with_outputs_def
          closed_with_error_def inj_eq)
  next
    case se: (Inr docs)
    show ?thesis
    proof (cases "generate_answer self q docs ci")
      case Inl
      with ne ex se show ?thesis
        by (simp add: closed_during_def opened_during_def ask_question_closed ask_question_opened
          ask_question_fst bare_pipeline_def span_id_def closed_with_outputs_def
          closed_with_error_def inj_eq)
    next
      case (Inr a)
      with ne ex se show ?thesis
        by (simp add: closed_during_def opened_during_def ask_question_closed ask_question_opened
          ask_question_fst bare_pipeline_def span_id_def closed_with_outputs_def
          closed_with_error_def inj_eq)
    qed
  qed
qed

theorem ask_question_spans_closed_witness:
  "(\<forall>n. uuid_draws test_world n \<noteq> []) \<and> inj (uuid_draws test_world) \<and>
   fst (ask_question traced_config extraction_fails ''What is the revenue?'' None test_world) =
     Inl lookup_failure \<and>
   enable_tracing extraction_fails \<and> active traced_config \<and>
   closed_during (ask_question traced_config extraction_fails ''What is the revenue?'' None)
     test_world =
     [End_args ''uu'' None (Some lookup_failure), End_args ''u'' None (Some lookup_failure)] \<and>
   map span_id
     (opened_during (ask_question traced_config extraction_fails ''What is the revenue?'' None)
        test_world) = [PStr ''u'', PStr ''uu''] \<and>
   distinct (map er_run_id
     (closed_during (ask_question traced_config extraction_fails ''What is the revenue?'' None)
        test_world)) \<and>
   closed_with_error lookup_failure
     (last (closed_during
        (ask_question traced_config extraction_fails ''What is the revenue?'' None) test_world)) \<and>
   fst (ask_question traced_config test_chatbot ''What is the revenue?'' None test_world) =
     Inr (exchange ''What is the revenue?'' ''Test answer'' (PDict [(''name'', PStr ''Test Corp'')])
            [PStr ''doc1'', PStr ''doc2'']) \<and>
   list_all closed_with_outputs
     (closed_during (ask_question traced_config test_chatbot ''What is the revenue?'' None)
        test_world) \<and>
   mset (map (\<lambda>a. PStr (er_run_id a))
     (closed_during (ask_question traced_config test_chatbot ''What is the revenue?'' None)
        test_world)) =
   mset (map span_id
     (opened_during (ask_question traced_config test_chatbot ''What is the revenue?'' None)
        test_world))"
proof -
  have ne: "\<forall>n. uuid_draws test_world n \<noteq> []"
    by (simp add: example_uuid_nonempty)
  have inj: "inj (uuid_draws test_world)"
    by (simp add: example_uuid_inj)
  have failed:
    "fst (ask_question traced_config extraction_fails ''What is the revenue?'' None test_world) =
       Inl lookup_failure"
    by (simp add: ask_question_fst bare_pipeline_def)
  have ok:
    "fst (ask_question traced_config test_chatbot ''What is the revenue?'' None test_world) =
       Inr (exchange ''What is the revenue?'' ''Test answer''
              (PDict [(''name'', PStr ''Test Corp'')]) [PStr ''doc1'', PStr ''doc2''])"
    by (simp add: ask_question_fst bare_pipeline_def)
  have closed:
    "closed_during (ask_question traced_config extraction_fails ''What is the revenue?'' None)
       test_world =
       [End_args ''uu'' None (Some lookup_failure), End_args ''u'' None (Some lookup_failure)]"
    by (simp add: closed_during_def ask_question_closed example_uuid_def)
  have opened:
    "map span_id
       (opened_during (ask_question traced_config extraction_fails ''What is the revenue?'' None)
          test_world) = [PStr ''u'', PStr ''uu'']"
    by (simp add: opened_during_def ask_question_opened example_uuid_def span_id_def)
  show ?thesis
    using ne inj failed ok closed opened
      ask_question_spans_closed [OF ne, of traced_config extraction_fails
        "''What is the revenue?''" None]
      ask_question_spans_closed [OF ne, of traced_config test_chatbot
        "''What is the revenue?''" None]
    by simp
qed

text \<open>
  C7: with tracing active and a non-empty root id, when \<^verbatim>\<open>ask_question\<close> returns an
  exchange \<open>x\<close>, the last \<^verbatim>\<open>end_run\<close> call closes the root span (the first span opened,
  named after the chatbot) with outputs \<open>x\<close> itself and no error.
\<close>

theorem root_span_outputs:
  assumes tr: "enable_tracing self" and ac: "active cfg"
    and ne: "uuid_draws w (uuid_count w) \<noteq> []"
    and ok: "fst (ask_question cfg self q h w) = Inr x"
  shows "closed_during (ask_question cfg self q h) w \<noteq> [] \<and>
         last (closed_during (ask_question cfg self q h) w) =
           End_args (uuid_draws w (uuid_count w)) (Some x) None \<and>
         ca_name (hd (opened_during (ask_question cfg self q h) w)) = chatbot_name self @ ''_query'' \<and>
         span_id (hd (opened_during (ask_question cfg self q h) w)) =
           PStr (uuid_draws w (uuid_count w))"
proof -
  from ok have "bare_pipeline self q = Inr x" by (simp add: ask_question_fst)
  then obtain ci docs a where st: "extract_company_info self q = Inr ci"
    "search_documents self ci q = Inr docs" "generate_answer self q docs ci = Inr a"
    and x: "x = exchange q a ci docs"
    by (rule bare_pipeline_Inr)
  from tr ac ne st x show ?thesis
    by (simp add: closed_during_def opened_during_def ask_question_closed ask_question_opened
          span_id_def)
qed

theorem root_span_outputs_witness:
  "enable_tracing test_chatbot \<and> active traced_config \<and>
   uuid_draws test_world (uuid_count test_world) \<noteq> [] \<and>
   fst (ask_question traced_config test_chatbot ''What is the revenue?'' None test_world) =
     Inr (exchange ''What is the revenue?'' ''Test answer'' (PDict [(''name'', PStr ''Test Corp'')])
            [PStr ''doc1'', PStr ''doc2'']) \<and>
   last (closed_during (ask_question traced_config test_chatbot ''What is the revenue?'' None)
           test_world) =
     End_args ''u''
       (Some (PDict [(''question'', PStr ''What is the revenue?''),
                     (''answer'', PStr ''Test answer''),
                     (''company_info'', PDict [(''name'', PStr ''Test Corp'')]),
                     (''sources'', PList [PStr ''doc1'', PStr ''doc2'']),
                     (''document_count'', PInt 2)]))
       None"
proof -
  have ne: "uuid_draws test_world (uuid_count test_world) \<noteq> []"
    by (simp add: example_uuid_nonempty)
  have ok:
    "fst (ask_question traced_config test_chatbot ''What is the revenue?'' None test_world) =
       Inr (exchange ''What is the revenue?'' ''Test answer''
              (PDict [(''name'', PStr ''Test Corp'')]) [PStr ''doc1'', PStr ''doc2''])"
    by (simp add: ask_question_fst bare_pipeline_def)
  show ?thesis
    using ne ok
      root_span_outputs [OF test_chatbot_simps(1) traced_config_active(1) ne ok]
    by (simp add: exchange_def example_uuid_def)
qed

text \<open>
  C9: ending a session and ending it again at once does not raise, for every session id,
  whatever the client does on either call; with tracing off (on the chatbot or in the
  configuration) \<^verbatim>\<open>end_conversation_session\<close> only adds its log line.
\<close>

theorem end_session_twice:
  "fst (py_bind (end_conversation_session cfg self sid summary)
          (\<lambda>_. end_conversation_session cfg self sid summary') w) = Inr () \<and>
   (\<not> enable_tracing self \<or> \<not> active cfg \<longrightarrow>
      end_conversation_session cfg self sid summary w =
        (Inr (), w\<lparr>events := events w @
                     [Log LInfo ''Conversation session ended'' [(''session_id'', PStr sid)]]\<rparr>))"
  by (simp add: py_bind_cases end_conversation_session_untraced)

theorem end_session_twice_witness:
  "fst (py_bind (end_conversation_session traced_config test_chatbot ''session-1''
                   (Some ''Test summary''))
          (\<lambda>_. end_conversation_session traced_config test_chatbot ''session-1''
                   (Some ''Test summary'')) test_world) = Inr () \<and>
   \<not> enable_tracing (test_chatbot\<lparr>enable_tracing := False\<rparr>) \<and>
   end_conversation_session disabled_config (test_chatbot\<lparr>enable_tracing := False\<rparr>)
     ''session-1'' (Some ''Test summary'') test_world =
     (Inr (), test_world\<lparr>events :=
                [Log LInfo ''Conversation session ended'' [(''session_id'', PStr ''session-1'')]]\<rparr>)"
  using end_session_twice [of traced_config test_chatbot "''session-1''" "Some ''Test summary''"
      "Some ''Test summary''" test_world]
    end_session_twice [of disabled_config "test_chatbot\<lparr>enable_tracing := False\<rparr>"
      "''session-1''" "Some ''Test summary''" "Some ''Test summary''" test_world]
  by simp

text \<open>
  C10 at the input of \<^verbatim>\<open>test_llm_call_with_tracing\<close>, a list with one dictionary, and
  the mocked model whose response has the content \<^verbatim>\<open>"test response"\<close>. With tracing on,
  \<^verbatim>\<open>_call_llm\<close> raises \<^verbatim>\<open>AttributeError\<close> while it builds the inputs of the span: the
  model is never invoked (no \<open>Call_llm_ainvoke\<close> among the events) and no content is
  returned. With tracing off, the same call returns the content of the response.
\<close>

theorem call_llm_dict_messages:
  "llm_ainvoke test_agent [Other (PDict [(''role'', PStr ''user''), (''content'', PStr ''test'')])] [] =
     Inr (Response (Some (PStr ''test response'')) ''<Mock>'') \<and>
   fst (call_llm traced_config test_agent
          [Other (PDict [(''role'', PStr ''user''), (''content'', PStr ''test'')])] [] test_world) =
     Inl (Exn ''AttributeError''
            ([CHR 0x27] @ ''dict'' @ [CHR 0x27] @ '' object has no attribute '' @
             [CHR 0x27] @ ''content'' @ [CHR 0x27])) \<and>
   events (snd (call_llm traced_config test_agent
          [Other (PDict [(''role'', PStr ''user''), (''content'', PStr ''test'')])] [] test_world)) =
     [Log LError ''LLM call failed''
        [(''error'', PStr ([CHR 0x27] @ ''dict'' @ [CHR 0x27] @ '' object has no attribute '' @
                          [CHR 0x27] @ ''content'' @ [CHR 0x27]))],
      Client_end_run
        (End_args ''u'' None
           (Some (Exn ''AttributeError''
                    ([CHR 0x27] @ ''dict'' @ [CHR 0x27] @ '' object has no attribute '' @
                     [CHR 0x27] @ ''content'' @ [CHR 0x27])))),
      Log LError ''Failed to end LangSmith run'' [(''error'', PStr ''backend unreachable'')]] \<and>
   fst (call_llm traced_config (test_agent\<lparr>agent_enable_tracing := False\<rparr>)
          [Other (PDict [(''role'', PStr ''user''), (''content'', PStr ''test'')])] [] test_world) =
     Inr (PStr ''test response'')"
proof -
  have model: "llm_ainvoke test_agent
      [Other (PDict [(''role'', PStr ''user''), (''content'', PStr ''test'')])] [] =
        Inr (Response (Some (PStr ''test response'')) ''<Mock>'')"
    by (simp add: test_agent_def)
  have traced: "fst (call_llm traced_config test_agent
      [Other (PDict [(''role'', PStr ''user''), (''content'', PStr ''test'')])] [] test_world) =
        Inl (Exn ''AttributeError''
               ([CHR 0x27] @ ''dict'' @ [CHR 0x27] @ '' object has no attribute '' @
                [CHR 0x27] @ ''content'' @ [CHR 0x27]))"
    by (simp add: call_llm_fst test_agent_def)
  have trace: "events (snd (call_llm traced_config test_agent
      [Other (PDict [(''role'', PStr ''user''), (''content'', PStr ''test'')])] [] test_world)) =
     [Log LError ''LLM call failed''
        [(''error'', PStr ([CHR 0x27] @ ''dict'' @ [CHR 0x27] @ '' object has no attribute '' @
                          [CHR 0x27] @ ''content'' @ [CHR 0x27]))],
      Client_end_run
        (End_args ''u'' None
           (Some (Exn ''AttributeError''
                    ([CHR 0x27] @ ''dict'' @ [CHR 0x27] @ '' object has no attribute '' @
                     [CHR 0x27] @ ''content'' @ [CHR 0x27])))),
      Log LError ''Failed to end LangSmith run'' [(''error'', PStr ''backend unreachable'')]]"
    by (simp add: call_llm_def py_try_apply call_llm_failed_def end_run_unreachable
          test_agent_def example_uuid_def)
  have untraced: "fst (call_llm traced_config (test_agent\<lparr>agent_enable_tracing := False\<rparr>)
      [Other (PDict [(''role'', PStr ''user''), (''content'', PStr ''test'')])] [] test_world) =
        Inr (PStr ''test response'')"
    by (simp add: call_llm_fst test_agent_def getattr_content_def)
  from model traced trace untraced show ?thesis by simp
qed

end
